theory Spec2Isabelle
  imports Main "HOL-Library.Word" "HOL-Library.Sublist"
begin

section \<open>Errors, panics and machine integers\<close>

text \<open>
  Go error values, as far as the provider code looks at them. \<open>EOF\<close> is \<open>io.EOF\<close>,
  \<open>ErrorString\<close> is \<open>errors.New\<close> (and \<open>fmt.Errorf\<close> without \<open>%w\<close>), \<open>APIError\<close> is
  \<open>*shared.APIError\<close> with its \<open>StatusCode\<close> and the value \<open>Response.Header.Get("Retry-After")\<close>
  yields (the empty string when the header is absent), and \<open>Wrapped msg e\<close> is
  \<open>fmt.Errorf(msg + ": %w", e)\<close>.
\<close>

datatype error =
    EOF
  | ErrorString string
  | APIError int string
  | Wrapped string error

text \<open>\<open>errors.As(err, &apiErr)\<close>: the first \<open>APIError\<close> on the unwrap chain.\<close>

fun errors_As_APIError :: "error \<Rightarrow> (int \<times> string) option" where
  "errors_As_APIError (APIError status retryAfterHeader) = Some (status, retryAfterHeader)"
| "errors_As_APIError (Wrapped msg e) = errors_As_APIError e"
| "errors_As_APIError EOF = None"
| "errors_As_APIError (ErrorString s) = None"

text \<open>\<open>errors.Is(err, io.EOF)\<close>.\<close>

fun errors_Is_EOF :: "error \<Rightarrow> bool" where
  "errors_Is_EOF EOF = True"
| "errors_Is_EOF (Wrapped msg e) = errors_Is_EOF e"
| "errors_Is_EOF (ErrorString s) = False"
| "errors_Is_EOF (APIError status h) = False"

text \<open>A call either panics (with the panic's message) or returns.\<close>

datatype 'a outcome = Panics string | Returns 'a

type_synonym int64 = "64 word"

text \<open>\<open>const maxRetries = 8\<close> (provider.go).\<close>

definition maxRetries :: int where
  "maxRetries = 8"

section \<open>Retry controller: \<open>shouldRetry\<close>\<close>

text \<open>
  \<open>int64(1000 * (1 << attempts))\<close>. Inside the conversion both untyped constants take the
  type \<open>int64\<close>, so the shift and the product wrap at 64 bits; a negative shift count
  panics at run time. \<open>attempts\<close> is a Go \<open>int\<close>, read here as a mathematical integer.
\<close>

definition backoff :: "int \<Rightarrow> int64 outcome" where
  "backoff attempts =
     (if attempts < 0 then Panics ''negative shift amount''
      else Returns (1000 * push_bit (nat attempts) 1))"

text \<open>
  \<open>Duration.Milliseconds()\<close>: a duration is an \<open>int64\<close> count of nanoseconds, divided by
  \<open>1e6\<close> with Go's truncation towards zero.
\<close>

definition Milliseconds :: "int64 \<Rightarrow> int64" where
  "Milliseconds d =
     (let k = sint d in word_of_int (if k < 0 then - ((- k) div 1000000) else k div 1000000))"

text \<open>
  \<open>shouldRetry(attempts, err)\<close> returns \<open>(retry, delay in ms, fatal error)\<close>. The standard
  library's \<open>time.ParseDuration\<close> is the parameter \<open>parseDuration\<close> (\<open>None\<close> when it
  reports a parse error).
\<close>

definition shouldRetry ::
  "(string \<Rightarrow> int64 option) \<Rightarrow> int \<Rightarrow> error \<Rightarrow> (bool \<times> int64 \<times> error option) outcome" where
  "shouldRetry parseDuration attempts err =
     (case errors_As_APIError err of
        None \<Rightarrow> Returns (False, 0, None)
      | Some (statusCode, retryAfterHeader) \<Rightarrow>
          if statusCode = 429 then
            (case (if retryAfterHeader \<noteq> [] then parseDuration (retryAfterHeader @ ''s'') else None) of
               Some retryAfter \<Rightarrow> Returns (True, Milliseconds retryAfter, None)
             | None \<Rightarrow>
                 (case backoff attempts of
                    Panics m \<Rightarrow> Panics m
                  | Returns b \<Rightarrow> Returns (True, b, None)))
          else if statusCode \<ge> 500 \<and> statusCode < 600 then
            (if attempts \<ge> maxRetries - 1
             then Returns (False, 0, Some (Wrapped ''max retries reached'' err))
             else (case backoff attempts of
                     Panics m \<Rightarrow> Panics m
                   | Returns b \<Rightarrow> Returns (True, b, None)))
          else Returns (False, 0, None))"

section \<open>Messages and tool calls\<close>

text \<open>
  Modelled from the spec: \<open>message.ToolCall\<close> and \<open>message.ToolResult\<close> are declared in
  the package \<open>internal/message\<close>, which is not among the sources. A tool call has an
  identifier, a name and an input; a tool result has a call identifier and a content.
  These are the fields the provider reads and writes.
\<close>

record ToolCall =
  ID :: string
  Name :: string
  Input :: string

record ToolResult =
  CallID :: string
  result_Content :: string

datatype MessageRole = User | Assistant | Tool

text \<open>
  Modelled from the spec: the package \<open>internal/message\<close> is not among the sources. A
  message has a role and an ordered sequence of content parts (text, binary attachment,
  tool call, tool result). A binary part is represented by the reference string that its
  \<open>String(models.ProviderInfineon)\<close> yields.
\<close>

datatype ContentPart =
    TextContent string
  | BinaryContent string
  | ToolCallPart ToolCall
  | ToolResultPart ToolResult

record Message =
  Role :: MessageRole
  Parts :: "ContentPart list"

text \<open>
  Modelled from the spec: the accessors of \<open>message.Message\<close> (not among the sources).
  \<open>msg_Content\<close> is \<open>msg.Content().String()\<close>, the text of the first text part and the
  empty string when there is none; the three others collect the parts of one kind, in
  order.
\<close>

fun msg_Content :: "ContentPart list \<Rightarrow> string" where
  "msg_Content [] = []"
| "msg_Content (TextContent t # ps) = t"
| "msg_Content (p # ps) = msg_Content ps"

fun msg_BinaryContent :: "ContentPart list \<Rightarrow> string list" where
  "msg_BinaryContent [] = []"
| "msg_BinaryContent (BinaryContent b # ps) = b # msg_BinaryContent ps"
| "msg_BinaryContent (p # ps) = msg_BinaryContent ps"

fun msg_ToolCalls :: "ContentPart list \<Rightarrow> ToolCall list" where
  "msg_ToolCalls [] = []"
| "msg_ToolCalls (ToolCallPart c # ps) = c # msg_ToolCalls ps"
| "msg_ToolCalls (p # ps) = msg_ToolCalls ps"

fun msg_ToolResults :: "ContentPart list \<Rightarrow> ToolResult list" where
  "msg_ToolResults [] = []"
| "msg_ToolResults (ToolResultPart r # ps) = r # msg_ToolResults ps"
| "msg_ToolResults (p # ps) = msg_ToolResults ps"

section \<open>Backend wire format\<close>

text \<open>
  \<open>openai.ChatCompletionMessageToolCallParam\<close>, flattened: \<open>ID\<close>, \<open>Type\<close>,
  \<open>Function.Name\<close>, \<open>Function.Arguments\<close>. \<open>make\<close> fills a slice with the zero value.
\<close>

record ToolCallParam =
  param_ID :: string
  param_Type :: string
  Function_Name :: string
  Function_Arguments :: string

definition zeroToolCallParam :: ToolCallParam where
  "zeroToolCallParam =
     \<lparr>param_ID = [], param_Type = [], Function_Name = [], Function_Arguments = []\<rparr>"

datatype ContentPartParam = OfText string | OfImageURL string

text \<open>
  \<open>openai.ChatCompletionMessageParamUnion\<close>: the system message, a user message with its
  content parts, an assistant message with its optional content and its tool calls, and
  a tool message with its content and \<open>ToolCallID\<close>.
\<close>

datatype MessageParam =
    SystemMessage string
  | UserMessage "ContentPartParam list"
  | OfAssistant "string option" "ToolCallParam list"
  | OfTool string string

text \<open>
  The loop over \<open>msg.ToolCalls()\<close> in \<open>convertMessages\<close>: \<open>assistantMsg.ToolCalls\<close> is
  made with the length of the input and entry \<open>i\<close> is assigned only when the call's input
  parses and marshals; \<open>continue\<close> leaves entry \<open>i\<close> as \<open>make\<close> created it.
  \<open>json.Unmarshal\<close> and \<open>json.Marshal\<close> of the standard library are the parameters
  \<open>unmarshal\<close> and \<open>marshal\<close> (\<open>None\<close> when they report an error).
\<close>

fun toolCallsLoop ::
  "(string \<Rightarrow> 'j option) \<Rightarrow> ('j \<Rightarrow> string option) \<Rightarrow> ToolCall list \<Rightarrow> nat
     \<Rightarrow> ToolCallParam list \<Rightarrow> ToolCallParam list" where
  "toolCallsLoop unmarshal marshal [] i out = out"
| "toolCallsLoop unmarshal marshal (call # calls) i out =
     (case unmarshal (Input call) of
        None \<Rightarrow> toolCallsLoop unmarshal marshal calls (Suc i) out
      | Some args \<Rightarrow>
          (case marshal args of
             None \<Rightarrow> toolCallsLoop unmarshal marshal calls (Suc i) out
           | Some argsJSON \<Rightarrow>
               toolCallsLoop unmarshal marshal calls (Suc i)
                 (out[i := \<lparr>param_ID = ID call, param_Type = ''function'',
                             Function_Name = Name call, Function_Arguments = argsJSON\<rparr>])))"

definition assistantToolCalls ::
  "(string \<Rightarrow> 'j option) \<Rightarrow> ('j \<Rightarrow> string option) \<Rightarrow> ToolCall list \<Rightarrow> ToolCallParam list" where
  "assistantToolCalls unmarshal marshal calls =
     (if length calls > 0
      then toolCallsLoop unmarshal marshal calls 0 (replicate (length calls) zeroToolCallParam)
      else [])"

text \<open>One message of \<open>convertMessages\<close>: the entries it appends to \<open>openaiMessages\<close>.\<close>

definition convertMessage ::
  "(string \<Rightarrow> 'j option) \<Rightarrow> ('j \<Rightarrow> string option) \<Rightarrow> Message \<Rightarrow> MessageParam list" where
  "convertMessage unmarshal marshal msg =
     (case Role msg of
        User \<Rightarrow>
          [UserMessage (OfText (msg_Content (Parts msg))
                          # map OfImageURL (msg_BinaryContent (Parts msg)))]
      | Assistant \<Rightarrow>
          [OfAssistant
             (if msg_Content (Parts msg) \<noteq> [] then Some (msg_Content (Parts msg)) else None)
             (assistantToolCalls unmarshal marshal (msg_ToolCalls (Parts msg)))]
      | Tool \<Rightarrow>
          map (\<lambda>result. OfTool (result_Content result) (CallID result))
            (msg_ToolResults (Parts msg)))"

definition convertMessages ::
  "(string \<Rightarrow> 'j option) \<Rightarrow> ('j \<Rightarrow> string option) \<Rightarrow> string \<Rightarrow> Message list
     \<Rightarrow> MessageParam list" where
  "convertMessages unmarshal marshal systemMessage messages =
     SystemMessage systemMessage # concat (map (convertMessage unmarshal marshal) messages)"

text \<open>
  Modelled from the spec: the interface \<open>tools.BaseTool\<close> is declared in the package
  \<open>internal/llm/tools\<close>, which is not among the sources. A tool descriptor has a name, a
  description and a JSON input schema; the record holds what the three methods
  \<open>Name()\<close>, \<open>Description()\<close> and \<open>JSONSchema()\<close> return, the last one a schema or an error.
\<close>

record 's BaseTool =
  tool_Name :: string
  tool_Description :: string
  tool_JSONSchema :: "error + 's"

text \<open>
  \<open>openai.ChatCompletionToolParam\<close>, flattened; the zero value has no parameters.
\<close>

record 's ToolParam =
  tool_Type :: string
  def_Name :: string
  def_Description :: string
  def_Parameters :: "'s option"

definition zeroToolParam :: "'s ToolParam" where
  "zeroToolParam =
     \<lparr>tool_Type = [], def_Name = [], def_Description = [], def_Parameters = None\<rparr>"

fun toolsLoop :: "'s BaseTool list \<Rightarrow> nat \<Rightarrow> 's ToolParam list \<Rightarrow> 's ToolParam list" where
  "toolsLoop [] idx openaiTools = openaiTools"
| "toolsLoop (tool # tools) idx openaiTools =
     (case tool_JSONSchema tool of
        Inl err \<Rightarrow> toolsLoop tools (Suc idx) openaiTools
      | Inr schema \<Rightarrow>
          toolsLoop tools (Suc idx)
            (openaiTools[idx := \<lparr>tool_Type = ''function'', def_Name = tool_Name tool,
                                  def_Description = tool_Description tool,
                                  def_Parameters = Some schema\<rparr>]))"

definition convertTools :: "'s BaseTool list \<Rightarrow> 's ToolParam list" where
  "convertTools tools =
     (if length tools = 0 then []
      else toolsLoop tools 0 (replicate (length tools) zeroToolParam))"

section \<open>Responses and events\<close>

text \<open>
  Modelled from the spec: \<open>message.FinishReason\<close> is declared in the package
  \<open>internal/message\<close>, which is not among the sources. It is one of Stop, Length,
  ToolCalls, ContentFilter and Unknown, the five values \<open>finishReason\<close> returns.
\<close>

datatype FinishReason =
    FinishReasonStop
  | FinishReasonLength
  | FinishReasonToolCalls
  | FinishReasonContentFilter
  | FinishReasonUnknown

fun finishReason :: "string \<Rightarrow> FinishReason" where
  "finishReason reason =
     (if reason = ''stop'' then FinishReasonStop
      else if reason = ''length'' then FinishReasonLength
      else if reason = ''tool_calls'' then FinishReasonToolCalls
      else if reason = ''content_filter'' then FinishReasonContentFilter
      else FinishReasonUnknown)"

record TokenUsage =
  InputTokens :: int64
  OutputTokens :: int64
  CacheCreationTokens :: int64
  CacheReadTokens :: int64

text \<open>The zero value of \<open>TokenUsage\<close>, as \<open>var usage TokenUsage\<close> declares it.\<close>

definition zeroTokenUsage :: TokenUsage where
  "zeroTokenUsage =
     \<lparr>InputTokens = 0, OutputTokens = 0, CacheCreationTokens = 0, CacheReadTokens = 0\<rparr>"

record ProviderResponse =
  Content :: string
  ToolCalls :: "ToolCall list"
  Usage :: TokenUsage
  resp_FinishReason :: FinishReason

datatype EventType =
    EventContentStart
  | EventToolUseStart
  | EventToolUseDelta
  | EventToolUseStop
  | EventContentDelta
  | EventThinkingDelta
  | EventContentStop
  | EventComplete
  | EventError
  | EventWarning

text \<open>
  \<open>ProviderEvent\<close>. The pointer fields hold the value they point to when the event is
  sent (\<open>None\<close> for nil).
\<close>

record ProviderEvent =
  Type :: EventType
  event_Content :: string
  Thinking :: string
  Response :: "ProviderResponse option"
  event_ToolCall :: "ToolCall option"
  Error :: "error option"

text \<open>\<open>ProviderEvent{Type: t}\<close>: every other field has its zero value.\<close>

definition event :: "EventType \<Rightarrow> ProviderEvent" where
  "event t =
     \<lparr>Type = t, event_Content = [], Thinking = [], Response = None,
      event_ToolCall = None, Error = None\<rparr>"

section \<open>Backend responses\<close>

text \<open>
  \<open>openai.ChatCompletion\<close>, as \<open>send\<close> reads it: the choices (message content, message
  tool calls with \<open>ID\<close>, \<open>Function.Name\<close> and \<open>Function.Arguments\<close>, finish reason) and
  the usage counters.
\<close>

record MessageToolCall =
  call_ID :: string
  call_Function_Name :: string
  call_Function_Arguments :: string

record Choice =
  Message_Content :: "string option"
  Message_ToolCalls :: "MessageToolCall list"
  choice_FinishReason :: string

record ChatCompletion =
  Choices :: "Choice list"
  PromptTokens :: int64
  CompletionTokens :: int64

text \<open>
  \<open>openai.ChatCompletionChunk\<close>, as \<open>stream\<close> reads it: per choice the delta's optional
  content, its tool-call deltas (index, optional id, optional function name, optional
  function arguments) and the finish reason.
\<close>

record ToolCallDelta =
  Index :: int
  delta_ID :: "string option"
  delta_Function_Name :: "string option"
  delta_Function_Arguments :: "string option"

record ChunkChoice =
  Delta_Content :: "string option"
  Delta_ToolCalls :: "ToolCallDelta list"
  chunk_FinishReason :: string

type_synonym ChatCompletionChunk = "ChunkChoice list"

text \<open>
  What one \<open>stream.Recv()\<close> returns: a chunk or an error. A backend stream is the list of
  what its successive \<open>Recv\<close> calls return; a \<open>Recv\<close> past the end of the list returns
  \<open>io.EOF\<close>. A backend stream that delivers chunks forever, or a \<open>Recv\<close> that never
  returns, is not represented: on it the goroutine never leaves its receive loop.
\<close>

datatype Recv = RecvChunk ChatCompletionChunk | RecvError error

type_synonym ChatCompletionStream = "Recv list"

section \<open>Request parameters\<close>

text \<open>
  \<open>models.Model\<close> without its four \<open>float64\<close> cost fields, which nothing here reads.
\<close>

record Model =
  model_ID :: string
  model_Name :: string
  model_Provider :: string
  APIModel :: string
  ContextWindow :: int64
  DefaultMaxTokens :: int64
  CanReason :: bool
  SupportsAttachments :: bool

record infineonOptions =
  baseURL :: string
  disableCache :: bool
  extraHeaders :: "(string \<times> string) list option"

text \<open>
  \<open>providerClientOptions\<close>. The OpenAI options are declared in a file that is not among
  the sources; their type is left unspecified.
\<close>

typedecl openaiOptions

record providerClientOptions =
  apiKey :: string
  model :: Model
  maxTokens :: int64
  systemMessage :: string
  openaiOptions :: "(openaiOptions \<Rightarrow> openaiOptions) list"
  infineonOptions :: "(infineonOptions \<Rightarrow> infineonOptions) list"

record 's ChatCompletionNewParams =
  params_Messages :: "MessageParam list"
  params_Model :: string
  params_Tools :: "'s ToolParam list"
  params_MaxTokens :: "int64 option"
  params_Stream :: "bool option"

definition preparedParams ::
  "providerClientOptions \<Rightarrow> MessageParam list \<Rightarrow> 's ToolParam list \<Rightarrow> 's ChatCompletionNewParams" where
  "preparedParams opts messages tools =
     \<lparr>params_Messages = messages,
      params_Model = APIModel (model opts),
      params_Tools = (if length tools > 0 then tools else []),
      params_MaxTokens = (if 0 <s maxTokens opts then Some (maxTokens opts) else None),
      params_Stream = None\<rparr>"

section \<open>Non-streaming path: \<open>send\<close>\<close>

definition toolCalls :: "ChatCompletion \<Rightarrow> ToolCall list" where
  "toolCalls completion =
     (case Choices completion of
        [] \<Rightarrow> []
      | choice # _ \<Rightarrow>
          (if length (Message_ToolCalls choice) = 0 then []
           else map (\<lambda>call. \<lparr>ID = call_ID call, Name = call_Function_Name call,
                              Input = call_Function_Arguments call\<rparr>)
                  (Message_ToolCalls choice)))"

definition usage :: "ChatCompletion \<Rightarrow> TokenUsage" where
  "usage completion =
     \<lparr>InputTokens = PromptTokens completion, OutputTokens = CompletionTokens completion,
      CacheCreationTokens = 0, CacheReadTokens = 0\<rparr>"

text \<open>
  The end of \<open>send\<close>, after the retry loop: the loop's \<open>err\<close> and \<open>completion\<close> decide
  the result.
\<close>

definition sendResult :: "ChatCompletion \<Rightarrow> error option \<Rightarrow> error + ProviderResponse" where
  "sendResult completion err =
     (case err of
        Some e \<Rightarrow> Inl e
      | None \<Rightarrow>
          (case Choices completion of
             [] \<Rightarrow> Inl (ErrorString ''no choices returned'')
           | choice # _ \<Rightarrow>
               Inr \<lparr>Content = (case Message_Content choice of None \<Rightarrow> [] | Some c \<Rightarrow> c),
                    ToolCalls = toolCalls completion,
                    Usage = usage completion,
                    resp_FinishReason = finishReason (choice_FinishReason choice)\<rparr>))"

definition zeroChatCompletion :: ChatCompletion where
  "zeroChatCompletion = \<lparr>Choices = [], PromptTokens = 0, CompletionTokens = 0\<rparr>"

text \<open>
  The retry loop of \<open>send\<close>, from the iteration \<open>attempts\<close> on, followed by the end of the
  function. \<open>create n\<close> is what the \<open>n\<close>-th call of \<open>CreateChatCompletion\<close> returns
  (counting from 0). \<open>completion\<close> and \<open>err\<close> are the loop's variables; a failed call
  leaves a completion that is never read. The sleep between attempts has no effect on
  the result.
\<close>

function sendAttempts ::
  "(string \<Rightarrow> int64 option) \<Rightarrow> (nat \<Rightarrow> error + ChatCompletion) \<Rightarrow> nat \<Rightarrow> ChatCompletion
     \<Rightarrow> error option \<Rightarrow> (error + ProviderResponse) outcome" where
  "sendAttempts parseDuration create attempts completion err =
     (if int attempts < maxRetries then
        (case create attempts of
           Inr completion' \<Rightarrow> Returns (sendResult completion' None)
         | Inl err' \<Rightarrow>
             (case shouldRetry parseDuration (int attempts) err' of
                Panics m \<Rightarrow> Panics m
              | Returns (retry, sleepDuration, retryErr) \<Rightarrow>
                  (case retryErr of
                     Some fatal \<Rightarrow> Returns (Inl fatal)
                   | None \<Rightarrow>
                       if \<not> retry then Returns (Inl err')
                       else sendAttempts parseDuration create (Suc attempts) completion
                              (Some err'))))
      else Returns (sendResult completion err))"
  by pat_completeness auto
termination
  by (relation "measure (\<lambda>(pd, create, attempts, completion, err). nat maxRetries - attempts)")
     (auto simp: maxRetries_def)

text \<open>
  \<open>send\<close>. The backend takes the request parameters and the number of the call.
\<close>

definition send ::
  "(string \<Rightarrow> int64 option) \<Rightarrow> (string \<Rightarrow> 'j option) \<Rightarrow> ('j \<Rightarrow> string option)
     \<Rightarrow> providerClientOptions \<Rightarrow> ('s ChatCompletionNewParams \<Rightarrow> nat \<Rightarrow> error + ChatCompletion)
     \<Rightarrow> Message list \<Rightarrow> 's BaseTool list \<Rightarrow> (error + ProviderResponse) outcome" where
  "send parseDuration unmarshal marshal opts client messages tools =
     (let openaiMessages = convertMessages unmarshal marshal (systemMessage opts) messages;
          openaiTools = convertTools tools;
          params = preparedParams opts openaiMessages openaiTools
      in sendAttempts parseDuration (client params) 0 zeroChatCompletion None)"

section \<open>Streaming path: \<open>stream\<close>\<close>

text \<open>The local variables of the goroutine that consumes the backend stream.\<close>

record locals =
  content_var :: string
  toolCalls_var :: "ToolCall list"
  usage_var :: TokenUsage
  finishReason_var :: FinishReason

text \<open>
  The body of the loop over \<open>choice.Delta.ToolCalls\<close> is two blocks. The first ("New
  tool call"): a delta whose index is outside the list and that carries an id appends a
  call with that id and announces it with its own copy of the call.
\<close>

definition newToolCall :: "ToolCallDelta \<Rightarrow> ToolCall list \<Rightarrow> ToolCall list \<times> ProviderEvent list" where
  "newToolCall d tcs =
     (if Index d < 0 \<or> Index d \<ge> int (length tcs) then
        (case delta_ID d of
           Some i \<Rightarrow>
             (let toolCall = \<lparr>ID = i, Name = [], Input = []\<rparr>
              in (tcs @ [toolCall],
                  [(event EventToolUseStart)\<lparr>event_ToolCall := Some toolCall\<rparr>]))
         | None \<Rightarrow> (tcs, []))
      else (tcs, []))"

text \<open>
  The second block ("Update existing tool call") tests the index against the list as it
  is now: a name is assigned to the call, arguments are appended to its input and sent on
  in an event that carries the call's id, its name and the fragment alone.
\<close>

definition updateToolCall :: "ToolCallDelta \<Rightarrow> ToolCall list \<Rightarrow> ToolCall list \<times> ProviderEvent list" where
  "updateToolCall d tcs =
     (if Index d \<ge> 0 \<and> Index d < int (length tcs) then
        (let k = nat (Index d);
             tcs1 = (case delta_Function_Name d of
                       Some n \<Rightarrow> tcs[k := (tcs ! k)\<lparr>Name := n\<rparr>]
                     | None \<Rightarrow> tcs)
         in (case delta_Function_Arguments d of
               Some a \<Rightarrow>
                 (let tcs2 = tcs1[k := (tcs1 ! k)\<lparr>Input := Input (tcs1 ! k) @ a\<rparr>]
                  in (tcs2,
                      [(event EventToolUseDelta)
                         \<lparr>event_ToolCall :=
                            Some \<lparr>ID = ID (tcs2 ! k), Name = Name (tcs2 ! k), Input = a\<rparr>\<rparr>]))
             | None \<Rightarrow> (tcs1, [])))
      else (tcs, []))"

definition toolCallDelta :: "ToolCallDelta \<Rightarrow> ToolCall list \<Rightarrow> ToolCall list \<times> ProviderEvent list" where
  "toolCallDelta d tcs =
     (let (tcs1, started) = newToolCall d tcs;
          (tcs2, updated) = updateToolCall d tcs1
      in (tcs2, started @ updated))"

fun toolCallDeltas :: "ToolCallDelta list \<Rightarrow> ToolCall list \<Rightarrow> ToolCall list \<times> ProviderEvent list" where
  "toolCallDeltas [] tcs = (tcs, [])"
| "toolCallDeltas (d # ds) tcs =
     (let (tcs1, evs1) = toolCallDelta d tcs;
          (tcs2, evs2) = toolCallDeltas ds tcs1
      in (tcs2, evs1 @ evs2))"

text \<open>One chunk with at least one choice: the first choice updates the locals.\<close>

definition handleChoice :: "ChunkChoice \<Rightarrow> locals \<Rightarrow> locals \<times> ProviderEvent list" where
  "handleChoice choice st =
     (let (st1, evs1) =
            (case Delta_Content choice of
               Some c \<Rightarrow>
                 (st\<lparr>content_var := content_var st @ c\<rparr>,
                  [(event EventContentDelta)\<lparr>event_Content := c\<rparr>])
             | None \<Rightarrow> (st, []));
          (tcs, evs2) = toolCallDeltas (Delta_ToolCalls choice) (toolCalls_var st1);
          st2 = st1\<lparr>toolCalls_var := tcs\<rparr>;
          st3 = (if chunk_FinishReason choice \<noteq> []
                 then st2\<lparr>finishReason_var := finishReason (chunk_FinishReason choice)\<rparr>
                 else st2)
      in (st3, evs1 @ evs2))"

text \<open>What follows the receive loop on a clean end of stream.\<close>

definition endOfStream :: "locals \<Rightarrow> ProviderEvent list" where
  "endOfStream st =
     map (\<lambda>toolCall. (event EventToolUseStop)\<lparr>event_ToolCall := Some toolCall\<rparr>) (toolCalls_var st)
     @ [event EventContentStop,
        (event EventComplete)
          \<lparr>Response := Some \<lparr>Content = content_var st, ToolCalls = toolCalls_var st,
                              Usage = usage_var st,
                              resp_FinishReason = finishReason_var st\<rparr>\<rparr>]"

text \<open>
  The receive loop and what follows it: the events sent until the channel is closed.
  The channel is unbuffered, so this is what a caller that keeps receiving gets; the
  context's cancellation reaches the goroutine only through the errors of the backend
  calls.
\<close>

fun recvLoop :: "ChatCompletionStream \<Rightarrow> locals \<Rightarrow> ProviderEvent list" where
  "recvLoop [] st = endOfStream st"
| "recvLoop (RecvError err # rest) st =
     (if errors_Is_EOF err then endOfStream st
      else [(event EventError)\<lparr>Error := Some err\<rparr>])"
| "recvLoop (RecvChunk chunk # rest) st =
     (case chunk of
        [] \<Rightarrow> recvLoop rest st
      | choice # _ \<Rightarrow>
          (let (st', evs) = handleChoice choice st in evs @ recvLoop rest st'))"

text \<open>
  The goroutine after the retry loop. \<open>zeroFinishReason\<close> is the zero value of
  \<open>message.FinishReason\<close>, whose declaration is not among the sources.
\<close>

definition streamBody :: "FinishReason \<Rightarrow> ChatCompletionStream \<Rightarrow> error option \<Rightarrow> ProviderEvent list" where
  "streamBody zeroFinishReason stream err =
     (case err of
        Some e \<Rightarrow> [(event EventError)\<lparr>Error := Some e\<rparr>]
      | None \<Rightarrow>
          event EventContentStart
          # recvLoop stream
              \<lparr>content_var = [], toolCalls_var = [], usage_var = zeroTokenUsage,
               finishReason_var = zeroFinishReason\<rparr>)"

text \<open>
  The retry loop of the goroutine, from the iteration \<open>attempts\<close> on, followed by the
  rest of the goroutine: the events sent until the channel is closed. \<open>create n\<close> is what
  the \<open>n\<close>-th call of \<open>CreateChatCompletionStream\<close> returns.
\<close>

function streamAttempts ::
  "(string \<Rightarrow> int64 option) \<Rightarrow> (nat \<Rightarrow> error + ChatCompletionStream) \<Rightarrow> FinishReason \<Rightarrow> nat
     \<Rightarrow> ChatCompletionStream \<Rightarrow> error option \<Rightarrow> ProviderEvent list outcome" where
  "streamAttempts parseDuration create zeroFinishReason attempts stream err =
     (if int attempts < maxRetries then
        (case create attempts of
           Inr stream' \<Rightarrow> Returns (streamBody zeroFinishReason stream' None)
         | Inl err' \<Rightarrow>
             (case shouldRetry parseDuration (int attempts) err' of
                Panics m \<Rightarrow> Panics m
              | Returns (retry, sleepDuration, retryErr) \<Rightarrow>
                  (case retryErr of
                     Some fatal \<Rightarrow> Returns [(event EventError)\<lparr>Error := Some fatal\<rparr>]
                   | None \<Rightarrow>
                       if \<not> retry then Returns [(event EventError)\<lparr>Error := Some err'\<rparr>]
                       else streamAttempts parseDuration create zeroFinishReason (Suc attempts)
                              stream (Some err'))))
      else Returns (streamBody zeroFinishReason stream err))"
  by pat_completeness auto
termination
  by (relation "measure (\<lambda>(pd, create, fr, attempts, stream, err). nat maxRetries - attempts)")
     (auto simp: maxRetries_def)

definition stream ::
  "(string \<Rightarrow> int64 option) \<Rightarrow> (string \<Rightarrow> 'j option) \<Rightarrow> ('j \<Rightarrow> string option)
     \<Rightarrow> providerClientOptions
     \<Rightarrow> ('s ChatCompletionNewParams \<Rightarrow> nat \<Rightarrow> error + ChatCompletionStream) \<Rightarrow> FinishReason
     \<Rightarrow> Message list \<Rightarrow> 's BaseTool list \<Rightarrow> ProviderEvent list outcome" where
  "stream parseDuration unmarshal marshal opts client zeroFinishReason messages tools =
     (let openaiMessages = convertMessages unmarshal marshal (systemMessage opts) messages;
          openaiTools = convertTools tools;
          params = (preparedParams opts openaiMessages openaiTools)\<lparr>params_Stream := Some True\<rparr>
      in streamAttempts parseDuration (client params) zeroFinishReason 0 [] None)"

section \<open>Provider factory and message filter\<close>

text \<open>
  \<open>cleanMessages\<close>: the loop appends every message that has a part to \<open>cleaned\<close>.
\<close>

fun cleanLoop :: "Message list \<Rightarrow> Message list \<Rightarrow> Message list" where
  "cleanLoop [] cleaned = cleaned"
| "cleanLoop (msg # messages) cleaned =
     (if length (Parts msg) = 0 then cleanLoop messages cleaned
      else cleanLoop messages (cleaned @ [msg]))"

definition cleanMessages :: "Message list \<Rightarrow> Message list" where
  "cleanMessages messages = cleanLoop messages []"

text \<open>
  \<open>SendMessages\<close> and \<open>StreamResponse\<close> of \<open>baseProvider[C]\<close>: the client's \<open>send\<close> and
  \<open>stream\<close> methods are the parameters.
\<close>

definition SendMessages :: "(Message list \<Rightarrow> 't \<Rightarrow> 'r) \<Rightarrow> Message list \<Rightarrow> 't \<Rightarrow> 'r" where
  "SendMessages client_send messages tools = client_send (cleanMessages messages) tools"

definition StreamResponse :: "(Message list \<Rightarrow> 't \<Rightarrow> 'r) \<Rightarrow> Message list \<Rightarrow> 't \<Rightarrow> 'r" where
  "StreamResponse client_stream messages tools = client_stream (cleanMessages messages) tools"

text \<open>
  The request options \<open>newInfineonClient\<close> hands to \<open>openai.NewClient\<close>; the client is
  represented by them. The extra headers are ranged over in the order of the list (Go
  leaves the order of a map unspecified).
\<close>

datatype RequestOption = WithAPIKey string | WithBaseURL string | WithHeader string string

record infineonClient =
  client_providerOptions :: providerClientOptions
  client_options :: infineonOptions
  client_requestOptions :: "RequestOption list"

definition newInfineonClient :: "providerClientOptions \<Rightarrow> infineonClient" where
  "newInfineonClient opts =
     (let infineonOpts =
            foldl (\<lambda>acc o'. o' acc)
              \<lparr>baseURL = ''https://api.infineon.ai/v1'', disableCache = False, extraHeaders = None\<rparr>
              (infineonOptions opts);
          o1 = (if apiKey opts \<noteq> [] then [WithAPIKey (apiKey opts)] else []);
          o2 = (if baseURL infineonOpts \<noteq> [] then o1 @ [WithBaseURL (baseURL infineonOpts)] else o1);
          o3 = (case extraHeaders infineonOpts of
                  Some hs \<Rightarrow> o2 @ map (\<lambda>(key, v). WithHeader key v) hs
                | None \<Rightarrow> o2)
      in \<lparr>client_providerOptions = opts, client_options = infineonOpts,
          client_requestOptions = o3\<rparr>)"

text \<open>
  A provider: \<open>baseProvider[OpenAIClient]\<close> with its options (its client is built by
  \<open>newOpenAIClient\<close>, which is not among the sources) or \<open>baseProvider[InfineonClient]\<close>
  with its options and its client.
\<close>

datatype Provider =
    OpenAIProvider providerClientOptions
  | InfineonProvider providerClientOptions infineonClient

definition zeroModel :: Model where
  "zeroModel =
     \<lparr>model_ID = [], model_Name = [], model_Provider = [], APIModel = [], ContextWindow = 0,
      DefaultMaxTokens = 0, CanReason = False, SupportsAttachments = False\<rparr>"

definition zeroClientOptions :: providerClientOptions where
  "zeroClientOptions =
     \<lparr>apiKey = [], model = zeroModel, maxTokens = 0, systemMessage = [],
      openaiOptions = [], infineonOptions = []\<rparr>"

text \<open>
  \<open>NewProvider\<close>: the provider identifiers are \<open>models.ProviderOpenAI = "openai"\<close>,
  \<open>models.ProviderInfineon = "infineon"\<close> and \<open>models.ProviderMock = "__mock"\<close>. It returns
  the pair of a provider (\<open>None\<close> for nil) and an error (\<open>None\<close> for nil), or panics.
\<close>

definition NewProvider ::
  "string \<Rightarrow> (providerClientOptions \<Rightarrow> providerClientOptions) list
     \<Rightarrow> (Provider option \<times> error option) outcome" where
  "NewProvider providerName opts =
     (let clientOptions = foldl (\<lambda>acc o'. o' acc) zeroClientOptions opts
      in if providerName = ''openai'' then Returns (Some (OpenAIProvider clientOptions), None)
         else if providerName = ''infineon''
           then Returns (Some (InfineonProvider clientOptions (newInfineonClient clientOptions)), None)
         else if providerName = ''__mock'' then Panics ''not implemented''
         else Returns (None, Some (ErrorString (''provider not supported: '' @ providerName))))"

section \<open>Notions used to state the properties\<close>

text \<open>
  Shorthand: the request parameters that \<open>send\<close> and \<open>stream\<close> hand to the backend, the
  locals as the goroutine declares them, and the events that carry an error or a tool
  call.
\<close>

abbreviation sendParams ::
  "(string \<Rightarrow> 'j option) \<Rightarrow> ('j \<Rightarrow> string option) \<Rightarrow> providerClientOptions \<Rightarrow> Message list
     \<Rightarrow> 's BaseTool list \<Rightarrow> 's ChatCompletionNewParams" where
  "sendParams unmarshal marshal opts messages tools \<equiv>
     preparedParams opts (convertMessages unmarshal marshal (systemMessage opts) messages)
       (convertTools tools)"

abbreviation streamParams ::
  "(string \<Rightarrow> 'j option) \<Rightarrow> ('j \<Rightarrow> string option) \<Rightarrow> providerClientOptions \<Rightarrow> Message list
     \<Rightarrow> 's BaseTool list \<Rightarrow> 's ChatCompletionNewParams" where
  "streamParams unmarshal marshal opts messages tools \<equiv>
     (sendParams unmarshal marshal opts messages tools)\<lparr>params_Stream := Some True\<rparr>"

abbreviation initialLocals :: "FinishReason \<Rightarrow> locals" where
  "initialLocals zeroFinishReason \<equiv>
     \<lparr>content_var = [], toolCalls_var = [], usage_var = zeroTokenUsage,
      finishReason_var = zeroFinishReason\<rparr>"

abbreviation errorEvent :: "error \<Rightarrow> ProviderEvent" where
  "errorEvent e \<equiv> (event EventError)\<lparr>Error := Some e\<rparr>"

abbreviation toolEvent :: "EventType \<Rightarrow> ToolCall \<Rightarrow> ProviderEvent" where
  "toolEvent t c \<equiv> (event t)\<lparr>event_ToolCall := Some c\<rparr>"

text \<open>
  What the conversion loops leave at the position of one item: the converted item, or
  the zero value when the item's input does not parse or marshal, respectively when the
  tool's schema extraction fails.
\<close>

definition toolCallParamOrZero ::
  "(string \<Rightarrow> 'j option) \<Rightarrow> ('j \<Rightarrow> string option) \<Rightarrow> ToolCall \<Rightarrow> ToolCallParam" where
  "toolCallParamOrZero unmarshal marshal call =
     (case unmarshal (Input call) of
        None \<Rightarrow> zeroToolCallParam
      | Some args \<Rightarrow>
          (case marshal args of
             None \<Rightarrow> zeroToolCallParam
           | Some argsJSON \<Rightarrow>
               \<lparr>param_ID = ID call, param_Type = ''function'', Function_Name = Name call,
                Function_Arguments = argsJSON\<rparr>))"

definition toolParamOrZero :: "'s BaseTool \<Rightarrow> 's ToolParam" where
  "toolParamOrZero tool =
     (case tool_JSONSchema tool of
        Inl err \<Rightarrow> zeroToolParam
      | Inr schema \<Rightarrow>
          \<lparr>tool_Type = ''function'', def_Name = tool_Name tool,
           def_Description = tool_Description tool, def_Parameters = Some schema\<rparr>)"

text \<open>
  The attempts \<open>a, a + 1, ..., a + n - 1\<close> of a backend call all fail with an error for
  which \<open>shouldRetry\<close> decides to retry without a fatal error.
\<close>

fun retried ::
  "(string \<Rightarrow> int64 option) \<Rightarrow> (nat \<Rightarrow> error + 'a) \<Rightarrow> nat \<Rightarrow> nat \<Rightarrow> bool" where
  "retried parseDuration create a 0 = True"
| "retried parseDuration create a (Suc n) =
     ((case create a of
         Inl e \<Rightarrow>
           (case shouldRetry parseDuration (int a) e of
              Returns (retry, sleepDuration, retryErr) \<Rightarrow> retry \<and> retryErr = None
            | Panics m \<Rightarrow> False)
       | Inr r \<Rightarrow> False)
      \<and> retried parseDuration create (Suc a) n)"

text \<open>The number of events of one type in an event sequence.\<close>

definition count_events :: "EventType \<Rightarrow> ProviderEvent list \<Rightarrow> nat" where
  "count_events t evs = length (filter (\<lambda>e. Type e = t) evs)"

text \<open>The tool calls carried by the events of one type, in order.\<close>

definition event_calls :: "EventType \<Rightarrow> ProviderEvent list \<Rightarrow> ToolCall list" where
  "event_calls t evs = List.map_filter event_ToolCall (filter (\<lambda>e. Type e = t) evs)"

text \<open>
  A backend stream that ends cleanly after the chunks \<open>chunks\<close>: every \<open>Recv\<close> returns a
  chunk until one returns \<open>io.EOF\<close> (or an error wrapping it).
\<close>

fun clean_end :: "ChatCompletionStream \<Rightarrow> bool" where
  "clean_end [] = True"
| "clean_end (RecvError e # rest) = errors_Is_EOF e"
| "clean_end (RecvChunk c # rest) = False"

text \<open>
  The first choices of the chunks that have one, and what they carry: the content
  deltas, the non-empty finish reasons and the tool-call deltas, in arrival order.
\<close>

definition first_choices :: "ChatCompletionChunk list \<Rightarrow> ChunkChoice list" where
  "first_choices chunks = map hd (filter (\<lambda>chunk. chunk \<noteq> []) chunks)"

definition content_deltas :: "ChatCompletionChunk list \<Rightarrow> string list" where
  "content_deltas chunks = List.map_filter Delta_Content (first_choices chunks)"

definition finish_reasons :: "ChatCompletionChunk list \<Rightarrow> string list" where
  "finish_reasons chunks =
     filter (\<lambda>r. r \<noteq> []) (map chunk_FinishReason (first_choices chunks))"

definition tool_call_deltas :: "ChatCompletionChunk list \<Rightarrow> ToolCallDelta list" where
  "tool_call_deltas chunks = concat (map Delta_ToolCalls (first_choices chunks))"

text \<open>
  The resolution of tool-call deltas to call indices, when \<open>n\<close> calls have been started:
  a delta whose index is outside the started calls and that carries an id starts a call;
  a delta whose index is then inside the started calls is resolved to that index. The
  result lists the resolved deltas with their call index, in arrival order.
\<close>

fun resolve :: "nat \<Rightarrow> ToolCallDelta list \<Rightarrow> (nat \<times> ToolCallDelta) list" where
  "resolve n [] = []"
| "resolve n (d # ds) =
     (let n' = (if (Index d < 0 \<or> int n \<le> Index d) \<and> delta_ID d \<noteq> None then Suc n else n)
      in (if 0 \<le> Index d \<and> Index d < int n' then [(nat (Index d), d)] else [])
         @ resolve n' ds)"

text \<open>The argument fragments and the name fragments of the deltas resolved to call \<open>k\<close>.\<close>

definition argument_fragments :: "nat \<Rightarrow> (nat \<times> ToolCallDelta) list \<Rightarrow> string list" where
  "argument_fragments k rs =
     List.map_filter (\<lambda>(j, d). if j = k then delta_Function_Arguments d else None) rs"

definition name_fragments :: "nat \<Rightarrow> (nat \<times> ToolCallDelta) list \<Rightarrow> string list" where
  "name_fragments k rs =
     List.map_filter (\<lambda>(j, d). if j = k then delta_Function_Name d else None) rs"

text \<open>
  The receive loop on a list of chunks, without what follows the loop: the locals after
  the last chunk and the events sent while the chunks are received.
\<close>

fun consume :: "ChatCompletionChunk list \<Rightarrow> locals \<Rightarrow> locals \<times> ProviderEvent list" where
  "consume [] st = (st, [])"
| "consume (chunk # chunks) st =
     (case chunk of
        [] \<Rightarrow> consume chunks st
      | choice # _ \<Rightarrow>
          (let (st1, evs1) = handleChoice choice st;
               (st2, evs2) = consume chunks st1
           in (st2, evs1 @ evs2)))"

declare sendAttempts.simps [simp del]
declare streamAttempts.simps [simp del]

section \<open>Properties of the retry controller\<close>

lemma sint_of_int_64:
  "- (2 ^ 63) \<le> k \<Longrightarrow> k < 2 ^ 63 \<Longrightarrow> sint (word_of_int k :: 64 word) = k"
  by (simp add: sint_sbintrunc' signed_take_bit_int_eq_self)

lemma backoff_small:
  assumes "0 \<le> a" "a \<le> 53"
  shows "\<exists>d. backoff a = Returns d \<and> sint d = 1000 * 2 ^ nat a"
proof -
  have le: "nat a \<le> 53" using assms by simp
  have "(2::int) ^ nat a \<le> 2 ^ 53" using le by (intro power_increasing) auto
  then have bound: "(1000::int) * 2 ^ nat a < 2 ^ 63" by simp
  have nonneg: "- (2 ^ 63) \<le> (1000::int) * 2 ^ nat a"
    by (rule order_trans [of _ 0]) simp_all
  have e: "(1000 :: 64 word) * push_bit (nat a) 1 = word_of_int (1000 * 2 ^ nat a)"
    by (simp add: push_bit_eq_mult)
  have "sint ((1000 :: 64 word) * push_bit (nat a) 1) = 1000 * 2 ^ nat a"
    by (simp only: e sint_of_int_64 [OF nonneg bound])
  then show ?thesis using assms by (simp add: backoff_def)
qed

lemma backoff_returns: "0 \<le> a \<Longrightarrow> \<exists>d. backoff a = Returns d"
  by (simp add: backoff_def)

text \<open>
  Claim C4, as the code has it. For an error whose chain holds an API error with status
  429: at every attempt index from 0 on the decision is to retry, with no fatal error;
  when the Retry-After header is empty or does not parse, the delay is
  \<open>1000 * 2 ^ attempts\<close> milliseconds for attempt indices 0 to 53 (1000 at 0, 8000 at 3);
  when the header is not empty and parses (with \<open>s\<close> appended) as a duration, the delay
  is that duration in milliseconds. From attempt index 54 on the 64-bit product wraps
  around, so the formula does not hold at every index.
\<close>

theorem shouldRetry_429:
  assumes api: "errors_As_APIError err = Some (429, hdr)"
  shows "(0 \<le> attempts \<longrightarrow> (\<exists>d. shouldRetry pd attempts err = Returns (True, d, None)))
       \<and> ((hdr = [] \<or> pd (hdr @ ''s'') = None) \<and> 0 \<le> attempts \<and> attempts \<le> 53 \<longrightarrow>
            (\<exists>d. shouldRetry pd attempts err = Returns (True, d, None)
                 \<and> sint d = 1000 * 2 ^ nat attempts))
       \<and> (hdr \<noteq> [] \<and> pd (hdr @ ''s'') = Some dur \<longrightarrow>
            shouldRetry pd attempts err = Returns (True, Milliseconds dur, None))"
proof (intro conjI impI)
  assume "0 \<le> attempts"
  then obtain d where "backoff attempts = Returns d" using backoff_returns by blast
  then show "\<exists>d. shouldRetry pd attempts err = Returns (True, d, None)"
    using api by (simp add: shouldRetry_def split: option.split)
next
  assume h: "(hdr = [] \<or> pd (hdr @ ''s'') = None) \<and> 0 \<le> attempts \<and> attempts \<le> 53"
  then obtain d where d: "backoff attempts = Returns d" "sint d = 1000 * 2 ^ nat attempts"
    using backoff_small by blast
  have "shouldRetry pd attempts err = Returns (True, d, None)"
    using api h d(1) by (auto simp add: shouldRetry_def)
  with d(2) show "\<exists>d. shouldRetry pd attempts err = Returns (True, d, None)
                 \<and> sint d = 1000 * 2 ^ nat attempts" by blast
next
  assume "hdr \<noteq> [] \<and> pd (hdr @ ''s'') = Some dur"
  then show "shouldRetry pd attempts err = Returns (True, Milliseconds dur, None)"
    using api by (simp add: shouldRetry_def)
qed

theorem shouldRetry_429_witness:
  "shouldRetry (\<lambda>s. None) 0 (APIError 429 []) = Returns (True, 1000, None)
   \<and> shouldRetry (\<lambda>s. None) 3 (APIError 429 []) = Returns (True, 8000, None)
   \<and> shouldRetry (\<lambda>s. if s = ''2s'' then Some 2000000000 else None) 5 (APIError 429 ''2'')
       = Returns (True, 2000, None)"
proof -
  let ?pd = "\<lambda>s. if s = ''2s'' then Some (2000000000 :: int64) else None"
  have a: "errors_As_APIError (APIError 429 []) = Some (429, [])" by simp
  have b: "errors_As_APIError (APIError 429 ''2'') = Some (429, ''2'')" by simp
  have "shouldRetry ?pd 5 (APIError 429 ''2'') = Returns (True, Milliseconds 2000000000, None)"
    using shouldRetry_429 [OF b, of 5 ?pd 2000000000] by simp
  moreover have "Milliseconds 2000000000 = 2000" by (simp add: Milliseconds_def)
  moreover have "shouldRetry (\<lambda>s. None) 0 (APIError 429 []) = Returns (True, 1000, None)"
    using shouldRetry_429 [OF a, of 0 "\<lambda>s. None"] by (simp add: shouldRetry_def backoff_def)
  moreover have "shouldRetry (\<lambda>s. None) 3 (APIError 429 []) = Returns (True, 8000, None)"
    using shouldRetry_429 [OF a, of 3 "\<lambda>s. None"] by (simp add: shouldRetry_def backoff_def)
  ultimately show ?thesis by simp
qed

text \<open>
  At attempt index 54, with no Retry-After header, the decision is to retry with the
  wrapped delay \<open>18014398509481984000\<close>, which as an \<open>int64\<close> is negative and is not
  \<open>1000 * 2 ^ 54\<close>.
\<close>

theorem shouldRetry_429_overflow_counterexample:
  "shouldRetry (\<lambda>s. None) 54 (APIError 429 []) = Returns (True, 18014398509481984000, None)
   \<and> sint (18014398509481984000 :: int64) = - 432345564227567616
   \<and> sint (18014398509481984000 :: int64) \<noteq> 1000 * 2 ^ 54"
  by (simp add: shouldRetry_def backoff_def)

text \<open>
  Claim C5. For an error whose chain holds an API error with a status in \<open>[500, 600)\<close>:
  while the attempt index (from 0 on) is below \<open>maxRetries - 1\<close> the decision is to retry
  after \<open>1000 * 2 ^ attempts\<close> milliseconds, with no fatal error; at \<open>maxRetries - 1\<close> and
  beyond the decision is not to retry, with delay 0 and the fatal error
  "max retries reached" wrapping the original error.
\<close>

theorem shouldRetry_5xx:
  assumes api: "errors_As_APIError err = Some (status, hdr)"
    and st: "500 \<le> status" "status < 600"
  shows "maxRetries = 8
       \<and> (0 \<le> attempts \<and> attempts < maxRetries - 1 \<longrightarrow>
            (\<exists>d. shouldRetry pd attempts err = Returns (True, d, None)
                 \<and> sint d = 1000 * 2 ^ nat attempts))
       \<and> (maxRetries - 1 \<le> attempts \<longrightarrow>
            shouldRetry pd attempts err
              = Returns (False, 0, Some (Wrapped ''max retries reached'' err)))"
proof (intro conjI impI)
  show "maxRetries = 8" by (simp add: maxRetries_def)
next
  assume h: "0 \<le> attempts \<and> attempts < maxRetries - 1"
  then have "attempts \<le> 53" by (simp add: maxRetries_def)
  then obtain d where d: "backoff attempts = Returns d" "sint d = 1000 * 2 ^ nat attempts"
    using h backoff_small by blast
  have "shouldRetry pd attempts err = Returns (True, d, None)"
    using api st h d(1) by (simp add: shouldRetry_def)
  with d(2) show "\<exists>d. shouldRetry pd attempts err = Returns (True, d, None)
                 \<and> sint d = 1000 * 2 ^ nat attempts" by blast
next
  assume "maxRetries - 1 \<le> attempts"
  then show "shouldRetry pd attempts err
              = Returns (False, 0, Some (Wrapped ''max retries reached'' err))"
    using api st by (simp add: shouldRetry_def)
qed

theorem shouldRetry_5xx_witness:
  "shouldRetry (\<lambda>s. None) 7 (APIError 500 [])
      = Returns (False, 0, Some (Wrapped ''max retries reached'' (APIError 500 [])))
   \<and> (\<exists>d. shouldRetry (\<lambda>s. None) 6 (APIError 500 []) = Returns (True, d, None) \<and> sint d = 64000)"
proof -
  have a: "errors_As_APIError (APIError 500 []) = Some (500, [])" by simp
  have s: "(500::int) \<le> 500" "(500::int) < 600" by simp_all
  have m: "maxRetries - 1 \<le> 7" by (simp add: maxRetries_def)
  have n: "(0::int) \<le> 6 \<and> 6 < maxRetries - 1" by (simp add: maxRetries_def)
  have t: "shouldRetry (\<lambda>s. None) 7 (APIError 500 [])
      = Returns (False, 0, Some (Wrapped ''max retries reached'' (APIError 500 [])))"
    using shouldRetry_5xx [OF a s, of 7 "\<lambda>s. None"] m by blast
  have u: "\<exists>d. shouldRetry (\<lambda>s. None) 6 (APIError 500 []) = Returns (True, d, None)
              \<and> sint d = 1000 * 2 ^ nat 6"
    using shouldRetry_5xx [OF a s, of 6 "\<lambda>s. None"] n by blast
  have v: "(1000::int) * 2 ^ nat 6 = 64000" by simp
  show ?thesis using t u unfolding v by blast
qed

section \<open>Properties of the message filter and the provider factory\<close>

lemma cleanLoop_filter:
  "cleanLoop messages cleaned = cleaned @ filter (\<lambda>m. Parts m \<noteq> []) messages"
  by (induction messages arbitrary: cleaned) auto

lemma cleanMessages_eq_filter:
  "cleanMessages messages = filter (\<lambda>m. Parts m \<noteq> []) messages"
  by (simp add: cleanMessages_def cleanLoop_filter)

text \<open>
  Claim C6. \<open>SendMessages\<close> and \<open>StreamResponse\<close> hand the client exactly the messages
  that have at least one part, in their original order; no message of the cleaned list
  is without parts, the cleaned list is a subsequence of the input, and cleaning a
  cleaned list changes nothing.
\<close>

theorem cleanMessages_drops_empty:
  "SendMessages client_send messages tools
     = client_send (filter (\<lambda>m. Parts m \<noteq> []) messages) tools
   \<and> StreamResponse client_stream messages tools
     = client_stream (filter (\<lambda>m. Parts m \<noteq> []) messages) tools
   \<and> (\<forall>m \<in> set (cleanMessages messages). length (Parts m) > 0)
   \<and> subseq (cleanMessages messages) messages
   \<and> cleanMessages (cleanMessages messages) = cleanMessages messages"
  by (simp add: SendMessages_def StreamResponse_def cleanMessages_eq_filter)

theorem cleanMessages_drops_empty_witness:
  "SendMessages (\<lambda>ms ts. ms)
     [\<lparr>Role = User, Parts = []\<rparr>, \<lparr>Role = Assistant, Parts = [TextContent ''hi'']\<rparr>,
      \<lparr>Role = Tool, Parts = []\<rparr>, \<lparr>Role = User, Parts = [TextContent ''yo'']\<rparr>] ()
   = [\<lparr>Role = Assistant, Parts = [TextContent ''hi'']\<rparr>, \<lparr>Role = User, Parts = [TextContent ''yo'']\<rparr>]
   \<and> length (Parts (hd (cleanMessages [\<lparr>Role = User, Parts = []\<rparr>,
                                        \<lparr>Role = Assistant, Parts = [TextContent ''hi'']\<rparr>]))) > 0"
  using cleanMessages_drops_empty
    [where client_send = "\<lambda>ms ts. ms" and client_stream = "\<lambda>ms ts. ms" and tools = "()"
       and messages = "[\<lparr>Role = User, Parts = []\<rparr>, \<lparr>Role = Assistant, Parts = [TextContent ''hi'']\<rparr>,
      \<lparr>Role = Tool, Parts = []\<rparr>, \<lparr>Role = User, Parts = [TextContent ''yo'']\<rparr>]"]
  by (simp add: cleanMessages_def)

text \<open>
  Claim C10. \<open>NewProvider\<close> with the identifier \<open>__mock\<close> panics, whatever the options;
  with an identifier other than \<open>openai\<close>, \<open>infineon\<close> and \<open>__mock\<close> it returns a nil
  provider and the error "provider not supported: " followed by the identifier.
\<close>

theorem NewProvider_mock_and_unknown:
  "NewProvider ''__mock'' opts = Panics ''not implemented''
   \<and> (providerName \<noteq> ''openai'' \<and> providerName \<noteq> ''infineon'' \<and> providerName \<noteq> ''__mock'' \<longrightarrow>
        NewProvider providerName opts
          = Returns (None, Some (ErrorString (''provider not supported: '' @ providerName))))"
  by (simp add: NewProvider_def Let_def)

theorem NewProvider_mock_and_unknown_witness:
  "NewProvider ''__mock'' [] = Panics ''not implemented''
   \<and> NewProvider ''anthropic'' []
       = Returns (None, Some (ErrorString ''provider not supported: anthropic''))"
  using NewProvider_mock_and_unknown [of "[]" "''anthropic''"] by simp

section \<open>Properties of the non-streaming path\<close>

lemma retried_step:
  assumes "retried pd create a (Suc n)"
  obtains e d where "create a = Inl e" "shouldRetry pd (int a) e = Returns (True, d, None)"
    "retried pd create (Suc a) n"
  using assms by (auto split: sum.splits outcome.splits)

lemma sendAttempts_success:
  assumes "retried pd create a n" "create (a + n) = Inr completion" "int (a + n) < maxRetries"
  shows "sendAttempts pd create a c err = Returns (sendResult completion None)"
  using assms
proof (induction n arbitrary: a c err)
  case 0
  then show ?case by (subst sendAttempts.simps) simp
next
  case (Suc n)
  from Suc.prems(1) obtain e d where
    e: "create a = Inl e" "shouldRetry pd (int a) e = Returns (True, d, None)"
    and r: "retried pd create (Suc a) n" by (rule retried_step)
  have lt: "int a < maxRetries" using Suc.prems(3) by simp
  have "sendAttempts pd create a c err = sendAttempts pd create (Suc a) c (Some e)"
    by (subst sendAttempts.simps) (simp add: e lt)
  also have "\<dots> = Returns (sendResult completion None)"
    using Suc.IH [OF r] Suc.prems(2,3) by simp
  finally show ?case .
qed

lemma finishReason_Unknown_iff:
  "finishReason reason = FinishReasonUnknown \<longleftrightarrow>
     reason \<noteq> ''stop'' \<and> reason \<noteq> ''length'' \<and> reason \<noteq> ''tool_calls''
     \<and> reason \<noteq> ''content_filter''"
  by simp

text \<open>
  Claim C7. When some attempt of \<open>send\<close> (after retried failures only) obtains a
  completion: with no choices, \<open>send\<close> returns the error "no choices returned" and no
  response; otherwise it returns a response whose content is the first choice's message
  content, or the empty string when that is absent, and whose finish reason is
  \<open>finishReason\<close> of the first choice's finish-reason string. \<open>finishReason\<close> is a total
  function into the enumeration: it yields \<open>FinishReasonUnknown\<close> exactly on the strings
  other than the four recognised ones, the empty string among them.
\<close>

theorem send_result:
  assumes "retried pd (client (preparedParams opts (convertMessages um ma (systemMessage opts) messages) (convertTools tools))) 0 n"
    and "client (preparedParams opts (convertMessages um ma (systemMessage opts) messages) (convertTools tools)) n = Inr completion"
    and "int n < maxRetries"
  shows "(Choices completion = [] \<longrightarrow>
            send pd um ma opts client messages tools
              = Returns (Inl (ErrorString ''no choices returned'')))
       \<and> (Choices completion \<noteq> [] \<longrightarrow>
            (\<exists>resp. send pd um ma opts client messages tools = Returns (Inr resp)
               \<and> Content resp = (case Message_Content (hd (Choices completion)) of
                                    None \<Rightarrow> [] | Some c \<Rightarrow> c)
               \<and> resp_FinishReason resp
                   = finishReason (choice_FinishReason (hd (Choices completion)))))
       \<and> finishReason [] = FinishReasonUnknown
       \<and> (finishReason reason = FinishReasonUnknown \<longleftrightarrow>
            reason \<noteq> ''stop'' \<and> reason \<noteq> ''length'' \<and> reason \<noteq> ''tool_calls''
            \<and> reason \<noteq> ''content_filter'')"
proof -
  let ?params = "preparedParams opts (convertMessages um ma (systemMessage opts) messages) (convertTools tools)"
  have s: "send pd um ma opts client messages tools = Returns (sendResult completion None)"
    unfolding send_def Let_def
    using sendAttempts_success [of pd "client ?params" 0 n completion] assms by simp
  show ?thesis
    unfolding s by (cases "Choices completion") (simp_all add: sendResult_def)
qed

theorem send_result_witness:
  "send (\<lambda>s. None) (\<lambda>s. None :: unit option) (\<lambda>j. None) zeroClientOptions
      (\<lambda>p n. Inr \<lparr>Choices = [], PromptTokens = 3, CompletionTokens = 4\<rparr>) [] ([] :: unit BaseTool list)
     = Returns (Inl (ErrorString ''no choices returned''))
   \<and> (\<exists>resp. send (\<lambda>s. None) (\<lambda>s. None :: unit option) (\<lambda>j. None) zeroClientOptions
         (\<lambda>p n. Inr \<lparr>Choices = [\<lparr>Message_Content = None, Message_ToolCalls = [],
                                     choice_FinishReason = ''eos''\<rparr>],
                         PromptTokens = 3, CompletionTokens = 4\<rparr>) [] ([] :: unit BaseTool list)
           = Returns (Inr resp)
         \<and> Content resp = [] \<and> resp_FinishReason resp = FinishReasonUnknown)"
proof -
  let ?c0 = "\<lparr>Choices = [], PromptTokens = 3, CompletionTokens = 4\<rparr>"
  let ?c1 = "\<lparr>Choices = [\<lparr>Message_Content = None, Message_ToolCalls = [],
                            choice_FinishReason = ''eos''\<rparr>],
                PromptTokens = 3, CompletionTokens = 4\<rparr>"
  have a: "send (\<lambda>s. None) (\<lambda>s. None :: unit option) (\<lambda>j. None) zeroClientOptions
      (\<lambda>p n. Inr ?c0) [] ([] :: unit BaseTool list)
     = Returns (Inl (ErrorString ''no choices returned''))"
    using send_result [where pd = "\<lambda>s. None" and um = "\<lambda>s. None :: unit option"
        and ma = "\<lambda>j. None" and opts = zeroClientOptions and client = "\<lambda>p n. Inr ?c0"
        and messages = "[]" and tools = "[] :: unit BaseTool list" and n = 0
        and completion = ?c0 and reason = "[]"]
    by (simp add: maxRetries_def)
  have b: "\<exists>resp. send (\<lambda>s. None) (\<lambda>s. None :: unit option) (\<lambda>j. None) zeroClientOptions
         (\<lambda>p n. Inr ?c1) [] ([] :: unit BaseTool list) = Returns (Inr resp)
         \<and> Content resp = [] \<and> resp_FinishReason resp = FinishReasonUnknown"
    using send_result [where pd = "\<lambda>s. None" and um = "\<lambda>s. None :: unit option"
        and ma = "\<lambda>j. None" and opts = zeroClientOptions and client = "\<lambda>p n. Inr ?c1"
        and messages = "[]" and tools = "[] :: unit BaseTool list" and n = 0
        and completion = ?c1 and reason = "[]"]
    by (simp add: maxRetries_def)
  show ?thesis using a b by blast
qed

section \<open>Properties of the streaming path\<close>

lemma shouldRetry_no_panic: "0 \<le> a \<Longrightarrow> shouldRetry pd a e \<noteq> Panics m"
  by (auto simp: shouldRetry_def backoff_def split: option.splits if_splits)

lemma streamAttempts_opened:
  assumes "retried pd create a n" "create (a + n) = Inr s" "int (a + n) < maxRetries"
  shows "streamAttempts pd create fr a st err = Returns (streamBody fr s None)"
  using assms
proof (induction n arbitrary: a st err)
  case 0
  then show ?case by (subst streamAttempts.simps) simp
next
  case (Suc n)
  from Suc.prems(1) obtain e d where
    e: "create a = Inl e" "shouldRetry pd (int a) e = Returns (True, d, None)"
    and r: "retried pd create (Suc a) n" by (rule retried_step)
  have lt: "int a < maxRetries" using Suc.prems(3) by simp
  have "streamAttempts pd create fr a st err = streamAttempts pd create fr (Suc a) st (Some e)"
    by (subst streamAttempts.simps) (simp add: e lt)
  also have "\<dots> = Returns (streamBody fr s None)"
    using Suc.IH [OF r] Suc.prems(2,3) by simp
  finally show ?case .
qed

lemma streamAttempts_stopped:
  assumes "retried pd create a n" "create (a + n) = Inl e" "int (a + n) < maxRetries"
    and "shouldRetry pd (int (a + n)) e = Returns (retry, d, retryErr)"
    and "retryErr \<noteq> None \<or> \<not> retry"
  shows "streamAttempts pd create fr a st err
           = Returns [(event EventError)\<lparr>Error := Some (case retryErr of Some fatal \<Rightarrow> fatal | None \<Rightarrow> e)\<rparr>]"
  using assms
proof (induction n arbitrary: a st err)
  case 0
  then show ?case by (subst streamAttempts.simps) (auto split: option.splits)
next
  case (Suc n)
  from Suc.prems(1) obtain e' d' where
    e: "create a = Inl e'" "shouldRetry pd (int a) e' = Returns (True, d', None)"
    and r: "retried pd create (Suc a) n" by (rule retried_step)
  have lt: "int a < maxRetries" using Suc.prems(3) by simp
  have "streamAttempts pd create fr a st err = streamAttempts pd create fr (Suc a) st (Some e')"
    by (subst streamAttempts.simps) (simp add: e lt)
  also have "\<dots> = Returns [(event EventError)\<lparr>Error := Some (case retryErr of Some fatal \<Rightarrow> fatal | None \<Rightarrow> e)\<rparr>]"
    using Suc.IH [OF r] Suc.prems(2-) by simp
  finally show ?case .
qed

lemma streamAttempts_shape:
  assumes "err \<noteq> None \<or> int a < maxRetries"
  shows "(\<exists>e. streamAttempts pd create fr a st err = Returns [(event EventError)\<lparr>Error := Some e\<rparr>])
       \<or> (\<exists>s. streamAttempts pd create fr a st err = Returns (streamBody fr s None))"
  using assms
proof (induction pd create fr a st err rule: streamAttempts.induct)
  case (1 pd create fr a st err)
  show ?case
  proof (cases "int a < maxRetries")
    case False
    with "1.prems" obtain e where "err = Some e" by auto
    with False have "streamAttempts pd create fr a st err
                       = Returns [(event EventError)\<lparr>Error := Some e\<rparr>]"
      by (subst streamAttempts.simps) (simp add: streamBody_def)
    then show ?thesis by blast
  next
    case lt: True
    show ?thesis
    proof (cases "create a")
      case (Inr s)
      with lt have "streamAttempts pd create fr a st err = Returns (streamBody fr s None)"
        by (subst streamAttempts.simps) simp
      then show ?thesis by blast
    next
      case (Inl e)
      obtain retry d retryErr where sr: "shouldRetry pd (int a) e = Returns (retry, d, retryErr)"
        using shouldRetry_no_panic [of "int a" pd e]
        by (cases "shouldRetry pd (int a) e") auto
      show ?thesis
      proof (cases "retryErr \<noteq> None \<or> \<not> retry")
        case True
        with lt Inl sr have "streamAttempts pd create fr a st err
            = Returns [(event EventError)\<lparr>Error := Some (case retryErr of Some fatal \<Rightarrow> fatal | None \<Rightarrow> e)\<rparr>]"
          by (subst streamAttempts.simps) (auto split: option.splits)
        then show ?thesis by blast
      next
        case False
        then have rr: "retry" "retryErr = None" by auto
        have step: "streamAttempts pd create fr a st err
                      = streamAttempts pd create fr (Suc a) st (Some e)"
          by (subst streamAttempts.simps) (simp add: lt Inl sr rr)
        have "(\<exists>e'. streamAttempts pd create fr (Suc a) st (Some e) = Returns [(event EventError)\<lparr>Error := Some e'\<rparr>])
            \<or> (\<exists>s. streamAttempts pd create fr (Suc a) st (Some e) = Returns (streamBody fr s None))"
          using "1.IH" [OF lt Inl sr refl refl _ _] rr by simp
        then show ?thesis unfolding step .
      qed
    qed
  qed
qed

subsection \<open>Events of one step\<close>

lemma event_simps [simp]:
  "Type (event t) = t" "event_ToolCall (event t) = None" "Error (event t) = None"
  "Response (event t) = None" "event_Content (event t) = []"
  by (simp_all add: event_def)

lemma count_events_simps [simp]:
  "count_events t [] = 0"
  "count_events t (e # evs) = (if Type e = t then Suc (count_events t evs) else count_events t evs)"
  "count_events t (xs @ ys) = count_events t xs + count_events t ys"
  by (simp_all add: count_events_def)

lemma event_calls_simps [simp]:
  "event_calls t [] = []"
  "event_calls t (e # evs) =
     (if Type e = t then (case event_ToolCall e of Some c \<Rightarrow> [c] | None \<Rightarrow> []) else [])
     @ event_calls t evs"
  "event_calls t (xs @ ys) = event_calls t xs @ event_calls t ys"
  by (auto simp add: event_calls_def List.map_filter_def split: option.splits)

text \<open>How many calls are started once a delta has passed the first block.\<close>

lemma newToolCall_length:
  "length (fst (newToolCall d tcs))
     = (if (Index d < 0 \<or> int (length tcs) \<le> Index d) \<and> delta_ID d \<noteq> None
        then Suc (length tcs) else length tcs)"
  by (auto simp: newToolCall_def Let_def split: option.splits)

lemma newToolCall_calls:
  "fst (newToolCall d tcs) = tcs @ event_calls EventToolUseStart (snd (newToolCall d tcs))"
  by (auto simp: newToolCall_def Let_def split: option.splits)

lemma newToolCall_new:
  "c \<in> set (event_calls EventToolUseStart (snd (newToolCall d tcs))) \<Longrightarrow> Name c = [] \<and> Input c = []"
  by (auto simp: newToolCall_def Let_def split: option.splits if_splits)

lemma newToolCall_types:
  "e \<in> set (snd (newToolCall d tcs)) \<Longrightarrow> Type e = EventToolUseStart"
  by (auto simp: newToolCall_def Let_def split: option.splits if_splits)

lemma updateToolCall_length [simp]: "length (fst (updateToolCall d tcs)) = length tcs"
  by (auto simp: updateToolCall_def Let_def split: option.splits)

lemma updateToolCall_types:
  "e \<in> set (snd (updateToolCall d tcs)) \<Longrightarrow> Type e = EventToolUseDelta"
  by (auto simp: updateToolCall_def Let_def split: option.splits if_splits)

lemma map_ID_update:
  "ID c = ID (xs ! k) \<Longrightarrow> map ID (xs[k := c]) = map ID xs"
  by (cases "k < length xs") (simp_all add: map_update list_update_same_conv list_update_beyond)

lemma updateToolCall_ids [simp]: "map ID (fst (updateToolCall d tcs)) = map ID tcs"
  by (auto simp: updateToolCall_def Let_def map_ID_update split: option.splits)

lemma updateToolCall_Input:
  assumes "k < length tcs"
  shows "Input (fst (updateToolCall d tcs) ! k)
           = Input (tcs ! k)
             @ (if 0 \<le> Index d \<and> Index d < int (length tcs) \<and> nat (Index d) = k
                then (case delta_Function_Arguments d of Some a \<Rightarrow> a | None \<Rightarrow> [])
                else [])"
  using assms
  by (auto simp: updateToolCall_def Let_def nth_list_update split: option.splits)

lemma updateToolCall_Name:
  assumes "k < length tcs"
  shows "Name (fst (updateToolCall d tcs) ! k)
           = (if 0 \<le> Index d \<and> Index d < int (length tcs) \<and> nat (Index d) = k
              then (case delta_Function_Name d of Some n \<Rightarrow> n | None \<Rightarrow> Name (tcs ! k))
              else Name (tcs ! k))"
  using assms
  by (auto simp: updateToolCall_def Let_def nth_list_update split: option.splits)

lemma updateToolCall_fragments:
  "map Input (event_calls EventToolUseDelta (snd (updateToolCall d tcs)))
     = (if 0 \<le> Index d \<and> Index d < int (length tcs)
        then (case delta_Function_Arguments d of Some a \<Rightarrow> [a] | None \<Rightarrow> [])
        else [])"
  by (auto simp: updateToolCall_def Let_def split: option.splits)

lemma updateToolCall_no_start [simp]:
  "event_calls EventToolUseStart (snd (updateToolCall d tcs)) = []"
  by (auto simp: updateToolCall_def Let_def split: option.splits)

lemma newToolCall_no_delta [simp]:
  "event_calls EventToolUseDelta (snd (newToolCall d tcs)) = []"
  by (auto simp: newToolCall_def Let_def split: option.splits)

subsection \<open>One tool-call delta and a list of them\<close>

lemma toolCallDelta_fst: "fst (toolCallDelta d tcs) = fst (updateToolCall d (fst (newToolCall d tcs)))"
  by (simp add: toolCallDelta_def split: prod.splits)

lemma toolCallDelta_snd:
  "snd (toolCallDelta d tcs)
     = snd (newToolCall d tcs) @ snd (updateToolCall d (fst (newToolCall d tcs)))"
  by (simp add: toolCallDelta_def split: prod.splits)

lemma toolCallDeltas_Cons_fst:
  "fst (toolCallDeltas (d # ds) tcs) = fst (toolCallDeltas ds (fst (toolCallDelta d tcs)))"
  by (simp add: split: prod.splits)

lemma toolCallDeltas_Cons_snd:
  "snd (toolCallDeltas (d # ds) tcs)
     = snd (toolCallDelta d tcs) @ snd (toolCallDeltas ds (fst (toolCallDelta d tcs)))"
  by (simp add: split: prod.splits)

lemma toolCallDeltas_append_fst:
  "fst (toolCallDeltas (xs @ ys) tcs) = fst (toolCallDeltas ys (fst (toolCallDeltas xs tcs)))"
proof (induction xs arbitrary: tcs)
  case Nil
  show ?case by simp
next
  case (Cons d xs)
  show ?case by (simp only: append_Cons toolCallDeltas_Cons_fst Cons.IH)
qed

lemma toolCallDeltas_append_snd:
  "snd (toolCallDeltas (xs @ ys) tcs)
     = snd (toolCallDeltas xs tcs) @ snd (toolCallDeltas ys (fst (toolCallDeltas xs tcs)))"
proof (induction xs arbitrary: tcs)
  case Nil
  show ?case by simp
next
  case (Cons d xs)
  show ?case
    by (simp only: append_Cons toolCallDeltas_Cons_fst toolCallDeltas_Cons_snd Cons.IH append_assoc)
qed

lemma toolCallDelta_length:
  "length (fst (toolCallDelta d tcs))
     = (if (Index d < 0 \<or> int (length tcs) \<le> Index d) \<and> delta_ID d \<noteq> None
        then Suc (length tcs) else length tcs)"
  by (simp only: toolCallDelta_fst updateToolCall_length newToolCall_length)

lemma newToolCall_nth_Input:
  "k < length (fst (newToolCall d tcs)) \<Longrightarrow>
     Input (fst (newToolCall d tcs) ! k) = (if k < length tcs then Input (tcs ! k) else [])"
  by (auto simp: newToolCall_def Let_def nth_append split: option.splits if_splits)

lemma newToolCall_nth_Name:
  "k < length (fst (newToolCall d tcs)) \<Longrightarrow>
     Name (fst (newToolCall d tcs) ! k) = (if k < length tcs then Name (tcs ! k) else [])"
  by (auto simp: newToolCall_def Let_def nth_append split: option.splits if_splits)

lemma toolCallDelta_Input:
  assumes "k < length (fst (toolCallDelta d tcs))"
  shows "Input (fst (toolCallDelta d tcs) ! k)
           = (if k < length tcs then Input (tcs ! k) else [])
             @ (if 0 \<le> Index d \<and> Index d < int (length (fst (toolCallDelta d tcs)))
                   \<and> nat (Index d) = k
                then (case delta_Function_Arguments d of Some a \<Rightarrow> a | None \<Rightarrow> [])
                else [])"
proof -
  have k: "k < length (fst (newToolCall d tcs))"
    using assms by (simp add: toolCallDelta_fst)
  show ?thesis
    unfolding toolCallDelta_fst updateToolCall_length
    by (simp only: updateToolCall_Input [OF k] newToolCall_nth_Input [OF k])
qed

lemma toolCallDelta_Name:
  assumes "k < length (fst (toolCallDelta d tcs))"
  shows "Name (fst (toolCallDelta d tcs) ! k)
           = (if 0 \<le> Index d \<and> Index d < int (length (fst (toolCallDelta d tcs)))
                   \<and> nat (Index d) = k
              then (case delta_Function_Name d of
                      Some n \<Rightarrow> n
                    | None \<Rightarrow> (if k < length tcs then Name (tcs ! k) else []))
              else (if k < length tcs then Name (tcs ! k) else []))"
proof -
  have k: "k < length (fst (newToolCall d tcs))"
    using assms by (simp add: toolCallDelta_fst)
  show ?thesis
    unfolding toolCallDelta_fst updateToolCall_length
    by (simp only: updateToolCall_Name [OF k] newToolCall_nth_Name [OF k])
qed

lemma toolCallDeltas_length_mono: "length tcs \<le> length (fst (toolCallDeltas ds tcs))"
proof (induction ds arbitrary: tcs)
  case Nil
  show ?case by simp
next
  case (Cons d ds)
  have "length tcs \<le> length (fst (toolCallDelta d tcs))"
    by (simp add: toolCallDelta_length)
  also have "\<dots> \<le> length (fst (toolCallDeltas ds (fst (toolCallDelta d tcs))))"
    by (rule Cons.IH)
  finally show ?case by (simp only: toolCallDeltas_Cons_fst)
qed

lemma resolve_Cons:
  "resolve (length tcs) (d # ds)
     = (if 0 \<le> Index d \<and> Index d < int (length (fst (toolCallDelta d tcs)))
        then [(nat (Index d), d)] else [])
       @ resolve (length (fst (toolCallDelta d tcs))) ds"
  by (simp add: toolCallDelta_length Let_def)

lemma argument_fragments_simps [simp]:
  "argument_fragments k [] = []"
  "argument_fragments k (xs @ ys) = argument_fragments k xs @ argument_fragments k ys"
  "argument_fragments k [(j, d)]
     = (if j = k then (case delta_Function_Arguments d of Some a \<Rightarrow> [a] | None \<Rightarrow> []) else [])"
  by (auto simp: argument_fragments_def List.map_filter_def split: option.splits)

lemma name_fragments_simps [simp]:
  "name_fragments k [] = []"
  "name_fragments k (xs @ ys) = name_fragments k xs @ name_fragments k ys"
  "name_fragments k [(j, d)]
     = (if j = k then (case delta_Function_Name d of Some a \<Rightarrow> [a] | None \<Rightarrow> []) else [])"
  by (auto simp: name_fragments_def List.map_filter_def split: option.splits)

lemma toolCallDeltas_Input:
  "k < length (fst (toolCallDeltas ds tcs)) \<Longrightarrow>
     Input (fst (toolCallDeltas ds tcs) ! k)
       = (if k < length tcs then Input (tcs ! k) else [])
         @ concat (argument_fragments k (resolve (length tcs) ds))"
proof (induction ds arbitrary: tcs)
  case Nil
  then show ?case by simp
next
  case (Cons d ds)
  let ?t = "fst (toolCallDelta d tcs)"
  have k: "k < length (fst (toolCallDeltas ds ?t))"
    using Cons.prems by (simp only: toolCallDeltas_Cons_fst)
  have ih: "Input (fst (toolCallDeltas ds ?t) ! k)
       = (if k < length ?t then Input (?t ! k) else [])
         @ concat (argument_fragments k (resolve (length ?t) ds))"
    by (rule Cons.IH [OF k])
  have le: "length tcs \<le> length ?t" by (simp add: toolCallDelta_length)
  have step: "(if k < length ?t then Input (?t ! k) else [])
       = (if k < length tcs then Input (tcs ! k) else [])
         @ concat (argument_fragments k
             (if 0 \<le> Index d \<and> Index d < int (length ?t) then [(nat (Index d), d)] else []))"
  proof (cases "k < length ?t")
    case True
    show ?thesis
      by (simp add: True toolCallDelta_Input [OF True] split: option.splits)
  next
    case False
    then have "\<not> k < length tcs" using le by simp
    moreover have "\<not> (0 \<le> Index d \<and> Index d < int (length ?t) \<and> nat (Index d) = k)"
      using False by auto
    ultimately show ?thesis using False by auto
  qed
  show ?case
    by (simp only: toolCallDeltas_Cons_fst ih step resolve_Cons argument_fragments_simps
          concat_append append_assoc)
qed

lemma toolCallDeltas_Name:
  "k < length (fst (toolCallDeltas ds tcs)) \<Longrightarrow>
     Name (fst (toolCallDeltas ds tcs) ! k)
       = (if name_fragments k (resolve (length tcs) ds) = []
          then (if k < length tcs then Name (tcs ! k) else [])
          else last (name_fragments k (resolve (length tcs) ds)))"
proof (induction ds arbitrary: tcs)
  case Nil
  then show ?case by simp
next
  case (Cons d ds)
  let ?t = "fst (toolCallDelta d tcs)"
  let ?F1 = "name_fragments k
               (if 0 \<le> Index d \<and> Index d < int (length ?t) then [(nat (Index d), d)] else [])"
  let ?F2 = "name_fragments k (resolve (length ?t) ds)"
  let ?base = "if k < length tcs then Name (tcs ! k) else []"
  have k: "k < length (fst (toolCallDeltas ds ?t))"
    using Cons.prems by (simp only: toolCallDeltas_Cons_fst)
  have ih: "Name (fst (toolCallDeltas ds ?t) ! k)
       = (if ?F2 = [] then (if k < length ?t then Name (?t ! k) else []) else last ?F2)"
    by (rule Cons.IH [OF k])
  have le: "length tcs \<le> length ?t" by (simp add: toolCallDelta_length)
  have step: "(if k < length ?t then Name (?t ! k) else [])
                = (if ?F1 = [] then ?base else last ?F1)"
  proof (cases "k < length ?t")
    case True
    show ?thesis
      by (simp add: True toolCallDelta_Name [OF True] split: option.splits)
  next
    case False
    then have "\<not> k < length tcs" using le by simp
    moreover have "\<not> (0 \<le> Index d \<and> Index d < int (length ?t) \<and> nat (Index d) = k)"
      using False by auto
    ultimately show ?thesis using False by auto
  qed
  have frag: "name_fragments k (resolve (length tcs) (d # ds)) = ?F1 @ ?F2"
    by (simp only: resolve_Cons name_fragments_simps)
  show ?case
    unfolding toolCallDeltas_Cons_fst frag ih step
    by (cases "?F2 = []") simp_all
qed

lemma map_filter_app:
  "List.map_filter f (xs @ ys) = List.map_filter f xs @ List.map_filter f ys"
  by (simp add: List.map_filter_def)

lemma toolCallDeltas_fragments:
  "map Input (event_calls EventToolUseDelta (snd (toolCallDeltas ds tcs)))
     = List.map_filter (\<lambda>(j, d). delta_Function_Arguments d) (resolve (length tcs) ds)"
proof (induction ds arbitrary: tcs)
  case Nil
  show ?case by (simp add: List.map_filter_def)
next
  case (Cons d ds)
  let ?t = "fst (toolCallDelta d tcs)"
  have one: "map Input (event_calls EventToolUseDelta (snd (toolCallDelta d tcs)))
      = List.map_filter (\<lambda>(j, d). delta_Function_Arguments d)
          (if 0 \<le> Index d \<and> Index d < int (length ?t) then [(nat (Index d), d)] else [])"
    by (simp add: toolCallDelta_snd updateToolCall_fragments toolCallDelta_fst
          List.map_filter_def split: option.splits)
  show ?case
    by (simp only: toolCallDeltas_Cons_snd event_calls_simps map_append one Cons.IH
          resolve_Cons map_filter_app)
qed

lemma toolCallDeltas_ids:
  "map ID (fst (toolCallDeltas ds tcs))
     = map ID tcs @ map ID (event_calls EventToolUseStart (snd (toolCallDeltas ds tcs)))"
proof (induction ds arbitrary: tcs)
  case Nil
  show ?case by simp
next
  case (Cons d ds)
  have one: "map ID (fst (toolCallDelta d tcs))
      = map ID tcs @ map ID (event_calls EventToolUseStart (snd (toolCallDelta d tcs)))"
    using newToolCall_calls [of d tcs]
    by (simp add: toolCallDelta_fst toolCallDelta_snd)
  show ?case
    by (simp only: toolCallDeltas_Cons_fst toolCallDeltas_Cons_snd Cons.IH one
          event_calls_simps map_append append_assoc)
qed

lemma toolCallDeltas_types:
  "e \<in> set (snd (toolCallDeltas ds tcs)) \<Longrightarrow>
     Type e = EventToolUseStart \<or> Type e = EventToolUseDelta"
proof (induction ds arbitrary: tcs)
  case Nil
  then show ?case by simp
next
  case (Cons d ds)
  then show ?case
    unfolding toolCallDeltas_Cons_snd toolCallDelta_snd
    using newToolCall_types updateToolCall_types by auto
qed

subsection \<open>One chunk and a list of chunks\<close>

lemma handleChoice_toolCalls:
  "toolCalls_var (fst (handleChoice c st))
     = fst (toolCallDeltas (Delta_ToolCalls c) (toolCalls_var st))"
  by (simp add: handleChoice_def Let_def split: option.splits prod.splits)

lemma handleChoice_content:
  "content_var (fst (handleChoice c st))
     = content_var st @ (case Delta_Content c of Some x \<Rightarrow> x | None \<Rightarrow> [])"
  by (simp add: handleChoice_def Let_def split: option.splits prod.splits)

lemma handleChoice_usage: "usage_var (fst (handleChoice c st)) = usage_var st"
  by (simp add: handleChoice_def Let_def split: option.splits prod.splits)

lemma handleChoice_finishReason:
  "finishReason_var (fst (handleChoice c st))
     = (if chunk_FinishReason c \<noteq> [] then finishReason (chunk_FinishReason c)
        else finishReason_var st)"
  by (simp add: handleChoice_def Let_def split: option.splits prod.splits)

lemma handleChoice_events:
  "snd (handleChoice c st)
     = (case Delta_Content c of
          Some x \<Rightarrow> [(event EventContentDelta)\<lparr>event_Content := x\<rparr>]
        | None \<Rightarrow> [])
       @ snd (toolCallDeltas (Delta_ToolCalls c) (toolCalls_var st))"
  by (simp add: handleChoice_def Let_def split: option.splits prod.splits)

lemma handleChoice_types:
  "e \<in> set (snd (handleChoice c st)) \<Longrightarrow>
     Type e = EventContentDelta \<or> Type e = EventToolUseStart \<or> Type e = EventToolUseDelta"
  unfolding handleChoice_events
  using toolCallDeltas_types by (auto split: option.splits)

lemma handleChoice_calls:
  "event_calls t (snd (handleChoice c st))
     = event_calls t (snd (toolCallDeltas (Delta_ToolCalls c) (toolCalls_var st)))"
  unfolding handleChoice_events by (simp split: option.splits)

lemma consume_Cons_fst:
  "fst (consume (chunk # chunks) st)
     = (case chunk of [] \<Rightarrow> fst (consume chunks st)
        | c # _ \<Rightarrow> fst (consume chunks (fst (handleChoice c st))))"
  by (simp split: list.splits prod.splits)

lemma consume_Cons_snd:
  "snd (consume (chunk # chunks) st)
     = (case chunk of [] \<Rightarrow> snd (consume chunks st)
        | c # _ \<Rightarrow> snd (handleChoice c st) @ snd (consume chunks (fst (handleChoice c st))))"
  by (simp split: list.splits prod.splits)

lemma first_choices_simps [simp]:
  "first_choices [] = []"
  "first_choices ([] # chunks) = first_choices chunks"
  "first_choices ((c # cs) # chunks) = c # first_choices chunks"
  by (simp_all add: first_choices_def)

lemma consume_toolCalls:
  "toolCalls_var (fst (consume chunks st))
     = fst (toolCallDeltas (tool_call_deltas chunks) (toolCalls_var st))"
proof (induction chunks arbitrary: st)
  case Nil
  show ?case by (simp add: tool_call_deltas_def)
next
  case (Cons chunk chunks)
  show ?case
  proof (cases chunk)
    case Nil
    then show ?thesis using Cons.IH [of st]
      by (simp only: consume_Cons_fst list.case tool_call_deltas_def first_choices_simps)
  next
    case (Cons c cs)
    have "tool_call_deltas ((c # cs) # chunks) = Delta_ToolCalls c @ tool_call_deltas chunks"
      by (simp add: tool_call_deltas_def)
    then show ?thesis
      using Cons.IH [of "fst (handleChoice c st)"]
      by (simp only: Cons consume_Cons_fst list.case toolCallDeltas_append_fst
            handleChoice_toolCalls)
  qed
qed

lemma consume_calls:
  "event_calls t (snd (consume chunks st))
     = event_calls t (snd (toolCallDeltas (tool_call_deltas chunks) (toolCalls_var st)))"
proof (induction chunks arbitrary: st)
  case Nil
  show ?case by (simp add: tool_call_deltas_def)
next
  case (Cons chunk chunks)
  show ?case
  proof (cases chunk)
    case Nil
    then show ?thesis using Cons.IH [of st]
      by (simp only: consume_Cons_snd list.case tool_call_deltas_def first_choices_simps)
  next
    case (Cons c cs)
    have "tool_call_deltas ((c # cs) # chunks) = Delta_ToolCalls c @ tool_call_deltas chunks"
      by (simp add: tool_call_deltas_def)
    then show ?thesis
      using Cons.IH [of "fst (handleChoice c st)"]
      by (simp only: Cons consume_Cons_snd list.case toolCallDeltas_append_snd
            handleChoice_toolCalls handleChoice_calls event_calls_simps)
  qed
qed

lemma consume_usage: "usage_var (fst (consume chunks st)) = usage_var st"
proof (induction chunks arbitrary: st)
  case Nil
  show ?case by simp
next
  case (Cons chunk chunks)
  show ?case
    by (cases chunk) (simp_all only: consume_Cons_fst list.case Cons.IH handleChoice_usage)
qed

lemma consume_content:
  "content_var (fst (consume chunks st)) = content_var st @ concat (content_deltas chunks)"
proof (induction chunks arbitrary: st)
  case Nil
  show ?case by (simp add: content_deltas_def List.map_filter_def)
next
  case (Cons chunk chunks)
  show ?case
  proof (cases chunk)
    case Nil
    then show ?thesis using Cons.IH [of st]
      by (simp only: consume_Cons_fst list.case content_deltas_def first_choices_simps)
  next
    case (Cons c cs)
    have "concat (content_deltas ((c # cs) # chunks))
            = (case Delta_Content c of Some x \<Rightarrow> x | None \<Rightarrow> []) @ concat (content_deltas chunks)"
      by (simp add: content_deltas_def List.map_filter_def split: option.splits)
    then show ?thesis
      using Cons.IH [of "fst (handleChoice c st)"]
      by (simp only: Cons consume_Cons_fst list.case handleChoice_content append_assoc)
  qed
qed

lemma consume_finishReason:
  "finishReason_var (fst (consume chunks st))
     = (if finish_reasons chunks = [] then finishReason_var st
        else finishReason (last (finish_reasons chunks)))"
proof (induction chunks arbitrary: st)
  case Nil
  show ?case by (simp add: finish_reasons_def)
next
  case (Cons chunk chunks)
  show ?case
  proof (cases chunk)
    case Nil
    then show ?thesis using Cons.IH [of st]
      by (simp only: consume_Cons_fst list.case finish_reasons_def first_choices_simps)
  next
    case (Cons c cs)
    have fr: "finish_reasons ((c # cs) # chunks)
            = (if chunk_FinishReason c \<noteq> [] then [chunk_FinishReason c] else [])
              @ finish_reasons chunks"
      by (simp add: finish_reasons_def)
    show ?thesis
      unfolding Cons consume_Cons_fst list.case Cons.IH handleChoice_finishReason fr
      by simp
  qed
qed

lemma consume_types:
  "e \<in> set (snd (consume chunks st)) \<Longrightarrow>
     Type e = EventContentDelta \<or> Type e = EventToolUseStart \<or> Type e = EventToolUseDelta"
proof (induction chunks arbitrary: st)
  case Nil
  then show ?case by simp
next
  case (Cons chunk chunks)
  then show ?case
    unfolding consume_Cons_snd
    using handleChoice_types by (cases chunk) auto
qed

lemma recvLoop_clean:
  "clean_end eof \<Longrightarrow>
     recvLoop (map RecvChunk chunks @ eof) st
       = snd (consume chunks st) @ endOfStream (fst (consume chunks st))"
proof (induction chunks arbitrary: st)
  case Nil
  then show ?case by (cases eof rule: clean_end.cases) simp_all
next
  case (Cons chunk chunks)
  then show ?case
    by (cases chunk) (simp_all add: split: prod.splits)
qed

lemma recvLoop_failed:
  "\<not> errors_Is_EOF err \<Longrightarrow>
     recvLoop (map RecvChunk chunks @ RecvError err # rest) st
       = snd (consume chunks st) @ [(event EventError)\<lparr>Error := Some err\<rparr>]"
proof (induction chunks arbitrary: st)
  case Nil
  then show ?case by simp
next
  case (Cons chunk chunks)
  then show ?case
    by (cases chunk) (simp_all add: split: prod.splits)
qed

text \<open>Every backend stream is a list of chunks followed by a clean end or by an error.\<close>

lemma stream_cases:
  obtains (clean) chunks eof where "s = map RecvChunk chunks @ eof" "clean_end eof"
  | (failed) chunks err rest where "s = map RecvChunk chunks @ RecvError err # rest"
      "\<not> errors_Is_EOF err"
proof (induction s arbitrary: thesis)
  case Nil
  show ?case by (rule Nil(1) [of "[]" "[]"]) simp_all
next
  case (Cons r s)
  show ?case
  proof (cases r)
    case (RecvError err)
    show ?thesis
    proof (cases "errors_Is_EOF err")
      case True
      show ?thesis by (rule Cons(2) [of "[]" "r # s"]) (simp_all add: RecvError True)
    next
      case False
      show ?thesis by (rule Cons(3) [of "[]" err s]) (simp_all add: RecvError False)
    qed
  next
    case (RecvChunk c)
    show ?thesis
    proof (rule Cons.IH)
      fix chunks eof assume "s = map RecvChunk chunks @ eof" "clean_end eof"
      then show thesis by (intro Cons(2) [of "c # chunks" eof]) (simp_all add: RecvChunk)
    next
      fix chunks err rest
      assume "s = map RecvChunk chunks @ RecvError err # rest" "\<not> errors_Is_EOF err"
      then show thesis by (intro Cons(3) [of "c # chunks" err rest]) (simp_all add: RecvChunk)
    qed
  qed
qed

subsection \<open>The whole stream\<close>

lemma stream_unfold:
  "stream pd um ma opts client fr messages tools
     = streamAttempts pd (client (streamParams um ma opts messages tools)) fr 0 [] None"
  by (simp add: stream_def Let_def)

lemma count_events_none: "(\<And>e. e \<in> set evs \<Longrightarrow> Type e \<noteq> t) \<Longrightarrow> count_events t evs = 0"
  by (induction evs) auto

lemma count_events_consume:
  "t \<noteq> EventContentDelta \<Longrightarrow> t \<noteq> EventToolUseStart \<Longrightarrow> t \<noteq> EventToolUseDelta \<Longrightarrow>
     count_events t (snd (consume chunks st)) = 0"
  by (rule count_events_none) (use consume_types in blast)

lemma count_events_map_toolEvent:
  "count_events t (map (toolEvent t') cs) = (if t = t' then length cs else 0)"
  by (induction cs) auto

lemma event_calls_map_toolEvent:
  "event_calls t (map (toolEvent t') cs) = (if t = t' then cs else [])"
  by (induction cs) auto

lemma endOfStream_eq:
  "endOfStream st
     = map (toolEvent EventToolUseStop) (toolCalls_var st)
       @ [event EventContentStop,
          (event EventComplete)
            \<lparr>Response := Some \<lparr>Content = content_var st, ToolCalls = toolCalls_var st,
                                Usage = usage_var st,
                                resp_FinishReason = finishReason_var st\<rparr>\<rparr>]"
  by (simp add: endOfStream_def)

lemma recvLoop_terminal:
  "count_events EventContentStart (recvLoop s st) = 0
   \<and> count_events EventComplete (recvLoop s st) + count_events EventError (recvLoop s st) = 1
   \<and> recvLoop s st \<noteq> []
   \<and> (Type (last (recvLoop s st)) = EventComplete \<or> Type (last (recvLoop s st)) = EventError)"
proof (cases s rule: stream_cases)
  case (clean chunks eof)
  show ?thesis
    unfolding clean(1) recvLoop_clean [OF clean(2)] endOfStream_eq
    by (simp add: count_events_consume count_events_map_toolEvent)
next
  case (failed chunks err rest)
  show ?thesis
    unfolding failed(1) recvLoop_failed [OF failed(2)]
    by (simp add: count_events_consume)
qed

lemma streamBody_terminal:
  "count_events EventContentStart (streamBody fr s None) = 1
   \<and> Type (hd (streamBody fr s None)) = EventContentStart
   \<and> count_events EventComplete (streamBody fr s None)
       + count_events EventError (streamBody fr s None) = 1
   \<and> (Type (last (streamBody fr s None)) = EventComplete
       \<or> Type (last (streamBody fr s None)) = EventError)"
  using recvLoop_terminal [of s "initialLocals fr"]
  by (simp add: streamBody_def)

text \<open>
  Claim C3. \<open>stream\<close> always returns an event sequence (the goroutine does not panic and
  closes the channel). A sequence without ContentStart is a single Error event. A
  sequence with ContentStart has exactly one, at its head, holds exactly one event that
  is Complete or Error (so never both and never neither), and ends with it. When, after
  retried failures only, an attempt to open the backend stream fails with an error for
  which \<open>shouldRetry\<close> returns a fatal error or decides not to retry, the sequence is the
  single Error event carrying the fatal error, respectively the error of that attempt.
\<close>

theorem stream_terminal_event:
  "\<exists>evs. stream pd um ma opts client fr messages tools = Returns evs
     \<and> (count_events EventContentStart evs = 0 \<longrightarrow> (\<exists>e. evs = [errorEvent e]))
     \<and> (0 < count_events EventContentStart evs \<longrightarrow>
          count_events EventContentStart evs = 1
          \<and> Type (hd evs) = EventContentStart
          \<and> count_events EventComplete evs + count_events EventError evs = 1
          \<and> (Type (last evs) = EventComplete \<or> Type (last evs) = EventError))
     \<and> (\<forall>n e retry d retryErr.
          retried pd (client (streamParams um ma opts messages tools)) 0 n
          \<and> int n < maxRetries
          \<and> client (streamParams um ma opts messages tools) n = Inl e
          \<and> shouldRetry pd (int n) e = Returns (retry, d, retryErr)
          \<and> (retryErr \<noteq> None \<or> \<not> retry) \<longrightarrow>
          evs = [errorEvent (case retryErr of Some fatal \<Rightarrow> fatal | None \<Rightarrow> e)])"
proof -
  let ?create = "client (streamParams um ma opts messages tools)"
  let ?run = "streamAttempts pd ?create fr 0 [] None"
  have lt: "None \<noteq> (None :: error option) \<or> int 0 < maxRetries" by (simp add: maxRetries_def)
  have stopped: "\<forall>n e retry d retryErr.
          retried pd ?create 0 n \<and> int n < maxRetries \<and> ?create n = Inl e
          \<and> shouldRetry pd (int n) e = Returns (retry, d, retryErr)
          \<and> (retryErr \<noteq> None \<or> \<not> retry) \<longrightarrow>
          ?run = Returns [errorEvent (case retryErr of Some fatal \<Rightarrow> fatal | None \<Rightarrow> e)]"
    using streamAttempts_stopped [of pd ?create 0 _ _ _ _ _ fr "[]" None] by auto
  from streamAttempts_shape [OF lt, of pd ?create fr "[]"]
  consider (err) e where "?run = Returns [errorEvent e]"
    | (opened) s where "?run = Returns (streamBody fr s None)" by blast
  then show ?thesis
  proof cases
    case err
    show ?thesis
      unfolding stream_unfold
      using stopped by (intro exI [of _ "[errorEvent e]"]) (auto simp add: err)
  next
    case opened
    show ?thesis
      unfolding stream_unfold
      using stopped streamBody_terminal [of fr s]
      by (intro exI [of _ "streamBody fr s None"]) (auto simp add: opened)
  qed
qed

theorem stream_terminal_event_witness:
  "stream (\<lambda>s. None) (\<lambda>s. None :: unit option) (\<lambda>j. None) zeroClientOptions
      (\<lambda>p n. Inl (APIError 400 [])) FinishReasonUnknown [] ([] :: unit BaseTool list)
     = Returns [errorEvent (APIError 400 [])]
   \<and> (\<exists>evs. stream (\<lambda>s. None) (\<lambda>s. None :: unit option) (\<lambda>j. None) zeroClientOptions
         (\<lambda>p n. Inr [RecvChunk [\<lparr>Delta_Content = Some ''hi'', Delta_ToolCalls = [],
                                     chunk_FinishReason = ''stop''\<rparr>]])
         FinishReasonUnknown [] ([] :: unit BaseTool list) = Returns evs
       \<and> count_events EventContentStart evs = 1
       \<and> count_events EventComplete evs + count_events EventError evs = 1)"
proof -
  let ?bad = "\<lambda>(p :: unit ChatCompletionNewParams) (n :: nat).
                (Inl (APIError 400 []) :: error + ChatCompletionStream)"
  let ?good = "\<lambda>(p :: unit ChatCompletionNewParams) (n :: nat).
                 (Inr [RecvChunk [\<lparr>Delta_Content = Some ''hi'', Delta_ToolCalls = [],
                                    chunk_FinishReason = ''stop''\<rparr>]] :: error + ChatCompletionStream)"
  obtain evs where
    a: "stream (\<lambda>s. None) (\<lambda>s. None :: unit option) (\<lambda>j. None) zeroClientOptions ?bad
          FinishReasonUnknown [] ([] :: unit BaseTool list) = Returns evs"
    and b: "\<forall>n e retry d retryErr.
          retried (\<lambda>s. None) (?bad (streamParams (\<lambda>s. None :: unit option) (\<lambda>j. None)
                                      zeroClientOptions [] [])) 0 n
          \<and> int n < maxRetries
          \<and> ?bad (streamParams (\<lambda>s. None :: unit option) (\<lambda>j. None) zeroClientOptions [] []) n = Inl e
          \<and> shouldRetry (\<lambda>s. None) (int n) e = Returns (retry, d, retryErr)
          \<and> (retryErr \<noteq> None \<or> \<not> retry) \<longrightarrow>
          evs = [errorEvent (case retryErr of Some fatal \<Rightarrow> fatal | None \<Rightarrow> e)]"
    using stream_terminal_event [where pd = "\<lambda>s. None" and um = "\<lambda>s. None :: unit option"
        and ma = "\<lambda>j. None" and opts = zeroClientOptions and client = ?bad
        and fr = FinishReasonUnknown and messages = "[]" and tools = "[] :: unit BaseTool list"]
    by blast
  have "evs = [errorEvent (APIError 400 [])]"
    using b [rule_format, of 0 "APIError 400 []" False 0 None]
    by (simp add: maxRetries_def shouldRetry_def)
  with a have first: "stream (\<lambda>s. None) (\<lambda>s. None :: unit option) (\<lambda>j. None) zeroClientOptions
      ?bad FinishReasonUnknown [] ([] :: unit BaseTool list) = Returns [errorEvent (APIError 400 [])]"
    by simp
  obtain evs' where
    c: "stream (\<lambda>s. None) (\<lambda>s. None :: unit option) (\<lambda>j. None) zeroClientOptions ?good
          FinishReasonUnknown [] ([] :: unit BaseTool list) = Returns evs'"
    and d: "0 < count_events EventContentStart evs' \<longrightarrow>
          count_events EventContentStart evs' = 1
          \<and> Type (hd evs') = EventContentStart
          \<and> count_events EventComplete evs' + count_events EventError evs' = 1
          \<and> (Type (last evs') = EventComplete \<or> Type (last evs') = EventError)"
    using stream_terminal_event [where pd = "\<lambda>s. None" and um = "\<lambda>s. None :: unit option"
        and ma = "\<lambda>j. None" and opts = zeroClientOptions and client = ?good
        and fr = FinishReasonUnknown and messages = "[]" and tools = "[] :: unit BaseTool list"]
    by (elim exE conjE) (rule that, assumption+)
  have "stream (\<lambda>s. None) (\<lambda>s. None :: unit option) (\<lambda>j. None) zeroClientOptions ?good
          FinishReasonUnknown [] ([] :: unit BaseTool list)
        = Returns (streamBody FinishReasonUnknown
            [RecvChunk [\<lparr>Delta_Content = Some ''hi'', Delta_ToolCalls = [],
                          chunk_FinishReason = ''stop''\<rparr>]] None)"
    unfolding stream_unfold by (subst streamAttempts.simps) (simp add: maxRetries_def)
  with c have "0 < count_events EventContentStart evs'"
    by (auto simp add: streamBody_def)
  with c d first show ?thesis by blast
qed

lemma stream_clean:
  assumes "retried pd (client (streamParams um ma opts messages tools)) 0 n"
    and "client (streamParams um ma opts messages tools) n = Inr (map RecvChunk chunks @ eof)"
    and "int n < maxRetries"
    and "clean_end eof"
  shows "stream pd um ma opts client fr messages tools
           = Returns (event EventContentStart
                      # snd (consume chunks (initialLocals fr))
                      @ endOfStream (fst (consume chunks (initialLocals fr))))"
proof -
  have "stream pd um ma opts client fr messages tools
          = Returns (streamBody fr (map RecvChunk chunks @ eof) None)"
    unfolding stream_unfold
    using streamAttempts_opened [of pd _ 0 n "map RecvChunk chunks @ eof" fr "[]" None] assms(1-3)
    by simp
  then show ?thesis
    by (simp add: streamBody_def recvLoop_clean [OF assms(4)])
qed

lemma newToolCall_count:
  "length (fst (newToolCall d tcs))
     = length tcs + count_events EventToolUseStart (snd (newToolCall d tcs))"
  by (auto simp: newToolCall_def Let_def split: option.splits)

lemma updateToolCall_count [simp]:
  "count_events EventToolUseStart (snd (updateToolCall d tcs)) = 0"
  by (rule count_events_none) (use updateToolCall_types in fastforce)

lemma toolCallDeltas_count:
  "length (fst (toolCallDeltas ds tcs))
     = length tcs + count_events EventToolUseStart (snd (toolCallDeltas ds tcs))"
proof (induction ds arbitrary: tcs)
  case Nil
  show ?case by simp
next
  case (Cons d ds)
  have one: "length (fst (toolCallDelta d tcs))
      = length tcs + count_events EventToolUseStart (snd (toolCallDelta d tcs))"
    using newToolCall_count [of d tcs]
    by (simp add: toolCallDelta_fst toolCallDelta_snd)
  show ?case
    by (simp only: toolCallDeltas_Cons_fst toolCallDeltas_Cons_snd Cons.IH one
          count_events_simps add.assoc)
qed

lemma handleChoice_count:
  "count_events EventToolUseStart (snd (handleChoice c st))
     = count_events EventToolUseStart (snd (toolCallDeltas (Delta_ToolCalls c) (toolCalls_var st)))"
  unfolding handleChoice_events by (simp split: option.splits)

lemma consume_count:
  "count_events EventToolUseStart (snd (consume chunks st))
     = count_events EventToolUseStart
         (snd (toolCallDeltas (tool_call_deltas chunks) (toolCalls_var st)))"
proof (induction chunks arbitrary: st)
  case Nil
  show ?case by (simp add: tool_call_deltas_def)
next
  case (Cons chunk chunks)
  show ?case
  proof (cases chunk)
    case Nil
    then show ?thesis using Cons.IH [of st]
      by (simp only: consume_Cons_snd list.case tool_call_deltas_def first_choices_simps)
  next
    case (Cons c cs)
    have "tool_call_deltas ((c # cs) # chunks) = Delta_ToolCalls c @ tool_call_deltas chunks"
      by (simp add: tool_call_deltas_def)
    then show ?thesis
      using Cons.IH [of "fst (handleChoice c st)"]
      by (simp only: Cons consume_Cons_snd list.case toolCallDeltas_append_snd
            handleChoice_toolCalls handleChoice_count count_events_simps)
  qed
qed

text \<open>
  Claim C8. When the backend stream is opened (after retried failures only) and ends
  cleanly after the chunks \<open>chunks\<close>, the event sequence is ContentStart, the events sent
  while the chunks are received (content deltas, tool-use starts and tool-use deltas
  only), one ToolUseStop per call of the final tool-call list in list order, ContentStop,
  and Complete with the concatenated content deltas, the final tool-call list, and the
  finish reason of the last chunk that has one (else the initial value). There are as
  many ToolUseStop events as ToolUseStart events, and their call ids are the same list.
\<close>

theorem stream_clean_end:
  assumes "retried pd (client (streamParams um ma opts messages tools)) 0 n"
    and "client (streamParams um ma opts messages tools) n = Inr (map RecvChunk chunks @ eof)"
    and "int n < maxRetries"
    and "clean_end eof"
  shows "\<exists>mid tcs.
           stream pd um ma opts client fr messages tools
             = Returns (event EventContentStart # mid
                        @ map (toolEvent EventToolUseStop) tcs
                        @ [event EventContentStop,
                           (event EventComplete)
                             \<lparr>Response := Some
                                \<lparr>Content = concat (content_deltas chunks),
                                 ToolCalls = tcs,
                                 Usage = zeroTokenUsage,
                                 resp_FinishReason =
                                   (if finish_reasons chunks = [] then fr
                                    else finishReason (last (finish_reasons chunks)))\<rparr>\<rparr>])
           \<and> (\<forall>e \<in> set mid. Type e = EventContentDelta \<or> Type e = EventToolUseStart
                                \<or> Type e = EventToolUseDelta)
           \<and> length tcs = count_events EventToolUseStart mid
           \<and> map ID tcs = map ID (event_calls EventToolUseStart mid)"
proof -
  let ?st = "fst (consume chunks (initialLocals fr))"
  let ?mid = "snd (consume chunks (initialLocals fr))"
  have tcs: "toolCalls_var ?st = fst (toolCallDeltas (tool_call_deltas chunks) [])"
    by (simp add: consume_toolCalls)
  have "stream pd um ma opts client fr messages tools
          = Returns (event EventContentStart # ?mid @ endOfStream ?st)"
    by (rule stream_clean [where client = client and um = um and ma = ma and opts = opts
          and messages = messages and tools = tools, OF assms])
  moreover have "endOfStream ?st
      = map (toolEvent EventToolUseStop) (toolCalls_var ?st)
        @ [event EventContentStop,
           (event EventComplete)
             \<lparr>Response := Some
                \<lparr>Content = concat (content_deltas chunks),
                 ToolCalls = toolCalls_var ?st,
                 Usage = zeroTokenUsage,
                 resp_FinishReason =
                   (if finish_reasons chunks = [] then fr
                    else finishReason (last (finish_reasons chunks)))\<rparr>\<rparr>]"
    by (simp add: endOfStream_eq consume_content consume_usage consume_finishReason)
  moreover have "\<forall>e \<in> set ?mid. Type e = EventContentDelta \<or> Type e = EventToolUseStart
                                \<or> Type e = EventToolUseDelta"
    using consume_types by blast
  moreover have "length (toolCalls_var ?st) = count_events EventToolUseStart ?mid"
    using toolCallDeltas_count [of "tool_call_deltas chunks" "[]"]
    by (simp add: tcs consume_count)
  moreover have "map ID (toolCalls_var ?st) = map ID (event_calls EventToolUseStart ?mid)"
    using toolCallDeltas_ids [of "tool_call_deltas chunks" "[]"]
    by (simp add: tcs consume_calls)
  ultimately show ?thesis by (intro exI [of _ ?mid] exI [of _ "toolCalls_var ?st"]) simp
qed

theorem stream_clean_end_witness:
  "\<exists>mid tcs.
     stream (\<lambda>s. None) (\<lambda>s. None :: unit option) (\<lambda>j. None) zeroClientOptions
       (\<lambda>p n. Inr
          [RecvChunk [\<lparr>Delta_Content = None,
                       Delta_ToolCalls = [\<lparr>Index = 0, delta_ID = Some ''c1'',
                                           delta_Function_Name = None,
                                           delta_Function_Arguments = None\<rparr>],
                       chunk_FinishReason = []\<rparr>],
           RecvChunk [\<lparr>Delta_Content = None,
                       Delta_ToolCalls = [\<lparr>Index = 0, delta_ID = None,
                                           delta_Function_Name = Some ''lookup'',
                                           delta_Function_Arguments = Some ''[1]''\<rparr>],
                       chunk_FinishReason = ''tool_calls''\<rparr>]])
       FinishReasonUnknown [] ([] :: unit BaseTool list)
     = Returns (event EventContentStart # mid
                @ map (toolEvent EventToolUseStop) tcs
                @ [event EventContentStop,
                   (event EventComplete)
                     \<lparr>Response := Some
                        \<lparr>Content = [], ToolCalls = tcs, Usage = zeroTokenUsage,
                         resp_FinishReason = FinishReasonToolCalls\<rparr>\<rparr>])
     \<and> length tcs = count_events EventToolUseStart mid
     \<and> map ID tcs = map ID (event_calls EventToolUseStart mid)"
proof -
  let ?c1 = "\<lparr>Delta_Content = None,
              Delta_ToolCalls = [\<lparr>Index = 0, delta_ID = Some ''c1'', delta_Function_Name = None,
                                  delta_Function_Arguments = None\<rparr>],
              chunk_FinishReason = []\<rparr>"
  let ?c2 = "\<lparr>Delta_Content = None,
              Delta_ToolCalls = [\<lparr>Index = 0, delta_ID = None,
                                  delta_Function_Name = Some ''lookup'',
                                  delta_Function_Arguments = Some ''[1]''\<rparr>],
              chunk_FinishReason = ''tool_calls''\<rparr>"
  let ?client = "\<lambda>(p :: unit ChatCompletionNewParams) (n :: nat).
                   (Inr [RecvChunk [?c1], RecvChunk [?c2]] :: error + ChatCompletionStream)"
  have h1: "retried (\<lambda>s. None)
              (?client (streamParams (\<lambda>s. None :: unit option) (\<lambda>j. None) zeroClientOptions [] [])) 0 0"
    by simp
  have h2: "?client (streamParams (\<lambda>s. None :: unit option) (\<lambda>j. None) zeroClientOptions [] []) 0
              = Inr (map RecvChunk [[?c1], [?c2]] @ [])"
    by simp
  have h3: "int 0 < maxRetries" by (simp add: maxRetries_def)
  have h4: "clean_end []" by simp
  have c: "concat (content_deltas [[?c1], [?c2]]) = []"
    by (simp add: content_deltas_def List.map_filter_def)
  have f: "(if finish_reasons [[?c1], [?c2]] = [] then FinishReasonUnknown
            else finishReason (last (finish_reasons [[?c1], [?c2]]))) = FinishReasonToolCalls"
    by (simp add: finish_reasons_def)
  show ?thesis
    using stream_clean_end [where pd = "\<lambda>s. None" and um = "\<lambda>s. None :: unit option"
      and ma = "\<lambda>j. None" and opts = zeroClientOptions and fr = FinishReasonUnknown
      and messages = "[]" and tools = "[] :: unit BaseTool list" and client = ?client,
      OF h1 h2 h3 h4]
    unfolding c f by blast
qed

lemma send_unfold:
  "send pd um ma opts client messages tools
     = sendAttempts pd (client (sendParams um ma opts messages tools)) 0 zeroChatCompletion None"
  by (simp add: send_def Let_def)

text \<open>
  Claim C9. When a streaming invocation runs to a clean end of stream, its event
  sequence holds one Complete event, the last one, and the usage it carries has all four
  fields zero, whatever the chunks are. When the non-streaming \<open>send\<close> obtains a
  completion with a choice, the usage of the response has the backend's prompt token
  count as input tokens and its completion token count as output tokens (and zero cache
  counts).
\<close>

theorem usage_streaming_zero:
  "(retried pd (client (streamParams um ma opts messages tools)) 0 n
      \<and> client (streamParams um ma opts messages tools) n = Inr (map RecvChunk chunks @ eof)
      \<and> int n < maxRetries \<and> clean_end eof \<longrightarrow>
      (\<exists>evs r. stream pd um ma opts client fr messages tools = Returns evs
         \<and> count_events EventComplete evs = 1
         \<and> last evs = (event EventComplete)\<lparr>Response := Some r\<rparr>
         \<and> InputTokens (Usage r) = 0 \<and> OutputTokens (Usage r) = 0
         \<and> CacheCreationTokens (Usage r) = 0 \<and> CacheReadTokens (Usage r) = 0))
   \<and> (retried pd (sclient (sendParams um ma opts messages tools)) 0 m
      \<and> sclient (sendParams um ma opts messages tools) m = Inr completion
      \<and> int m < maxRetries \<and> Choices completion \<noteq> [] \<longrightarrow>
      (\<exists>resp. send pd um ma opts sclient messages tools = Returns (Inr resp)
         \<and> InputTokens (Usage resp) = PromptTokens completion
         \<and> OutputTokens (Usage resp) = CompletionTokens completion
         \<and> CacheCreationTokens (Usage resp) = 0 \<and> CacheReadTokens (Usage resp) = 0))"
proof (intro conjI impI)
  assume h: "retried pd (client (streamParams um ma opts messages tools)) 0 n
      \<and> client (streamParams um ma opts messages tools) n = Inr (map RecvChunk chunks @ eof)
      \<and> int n < maxRetries \<and> clean_end eof"
  let ?st = "fst (consume chunks (initialLocals fr))"
  let ?mid = "snd (consume chunks (initialLocals fr))"
  let ?r = "\<lparr>Content = content_var ?st, ToolCalls = toolCalls_var ?st, Usage = usage_var ?st,
             resp_FinishReason = finishReason_var ?st\<rparr>"
  let ?evs = "event EventContentStart # ?mid @ endOfStream ?st"
  have s: "stream pd um ma opts client fr messages tools = Returns ?evs"
    using h stream_clean [where client = client and um = um and ma = ma and opts = opts
          and messages = messages and tools = tools and n = n and chunks = chunks and eof = eof]
    by blast
  have "count_events EventComplete ?evs = 1"
    by (simp add: endOfStream_eq count_events_consume count_events_map_toolEvent)
  moreover have "last ?evs = (event EventComplete)\<lparr>Response := Some ?r\<rparr>"
    by (simp add: endOfStream_eq)
  moreover have "Usage ?r = zeroTokenUsage" by (simp add: consume_usage)
  ultimately show "\<exists>evs r. stream pd um ma opts client fr messages tools = Returns evs
         \<and> count_events EventComplete evs = 1
         \<and> last evs = (event EventComplete)\<lparr>Response := Some r\<rparr>
         \<and> InputTokens (Usage r) = 0 \<and> OutputTokens (Usage r) = 0
         \<and> CacheCreationTokens (Usage r) = 0 \<and> CacheReadTokens (Usage r) = 0"
    using s by (intro exI [of _ ?evs] exI [of _ ?r]) (simp add: zeroTokenUsage_def)
next
  assume h: "retried pd (sclient (sendParams um ma opts messages tools)) 0 m
      \<and> sclient (sendParams um ma opts messages tools) m = Inr completion
      \<and> int m < maxRetries \<and> Choices completion \<noteq> []"
  have "send pd um ma opts sclient messages tools = Returns (sendResult completion None)"
    unfolding send_unfold
    using h sendAttempts_success [of pd _ 0 m completion zeroChatCompletion None] by simp
  then show "\<exists>resp. send pd um ma opts sclient messages tools = Returns (Inr resp)
         \<and> InputTokens (Usage resp) = PromptTokens completion
         \<and> OutputTokens (Usage resp) = CompletionTokens completion
         \<and> CacheCreationTokens (Usage resp) = 0 \<and> CacheReadTokens (Usage resp) = 0"
    using h by (cases "Choices completion") (simp_all add: sendResult_def usage_def)
qed

theorem usage_streaming_zero_witness:
  "(\<exists>evs r. stream (\<lambda>s. None) (\<lambda>s. None :: unit option) (\<lambda>j. None) zeroClientOptions
       (\<lambda>p n. Inr [RecvChunk [\<lparr>Delta_Content = Some ''hi'', Delta_ToolCalls = [],
                                   chunk_FinishReason = ''stop''\<rparr>]])
       FinishReasonUnknown [] ([] :: unit BaseTool list) = Returns evs
      \<and> last evs = (event EventComplete)\<lparr>Response := Some r\<rparr>
      \<and> InputTokens (Usage r) = 0 \<and> OutputTokens (Usage r) = 0
      \<and> CacheCreationTokens (Usage r) = 0 \<and> CacheReadTokens (Usage r) = 0)
   \<and> (\<exists>resp. send (\<lambda>s. None) (\<lambda>s. None :: unit option) (\<lambda>j. None) zeroClientOptions
         (\<lambda>p n. Inr \<lparr>Choices = [\<lparr>Message_Content = Some ''hi'', Message_ToolCalls = [],
                                     choice_FinishReason = ''stop''\<rparr>],
                         PromptTokens = 12, CompletionTokens = 34\<rparr>)
         [] ([] :: unit BaseTool list) = Returns (Inr resp)
      \<and> InputTokens (Usage resp) = 12 \<and> OutputTokens (Usage resp) = 34)"
proof -
  let ?c = "\<lparr>Delta_Content = Some ''hi'', Delta_ToolCalls = [], chunk_FinishReason = ''stop''\<rparr>"
  let ?client = "\<lambda>(p :: unit ChatCompletionNewParams) (n :: nat).
                   (Inr [RecvChunk [?c]] :: error + ChatCompletionStream)"
  let ?completion = "\<lparr>Choices = [\<lparr>Message_Content = Some ''hi'', Message_ToolCalls = [],
                                     choice_FinishReason = ''stop''\<rparr>],
                        PromptTokens = 12, CompletionTokens = 34\<rparr>"
  let ?sclient = "\<lambda>(p :: unit ChatCompletionNewParams) (n :: nat).
                    (Inr ?completion :: error + ChatCompletion)"
  note t = usage_streaming_zero [where pd = "\<lambda>s. None" and um = "\<lambda>s. None :: unit option"
      and ma = "\<lambda>j. None" and opts = zeroClientOptions and fr = FinishReasonUnknown
      and messages = "[]" and tools = "[] :: unit BaseTool list" and client = ?client
      and sclient = ?sclient and n = 0 and m = 0 and chunks = "[[?c]]" and eof = "[]"
      and completion = ?completion]
  have h1: "retried (\<lambda>s. None)
              (?client (streamParams (\<lambda>s. None :: unit option) (\<lambda>j. None) zeroClientOptions [] [])) 0 0
            \<and> ?client (streamParams (\<lambda>s. None :: unit option) (\<lambda>j. None) zeroClientOptions [] []) 0
              = Inr (map RecvChunk [[?c]] @ [])
            \<and> int 0 < maxRetries \<and> clean_end []"
    by (simp add: maxRetries_def)
  have h2: "retried (\<lambda>s. None)
              (?sclient (sendParams (\<lambda>s. None :: unit option) (\<lambda>j. None) zeroClientOptions [] [])) 0 0
            \<and> ?sclient (sendParams (\<lambda>s. None :: unit option) (\<lambda>j. None) zeroClientOptions [] []) 0
              = Inr ?completion
            \<and> int 0 < maxRetries \<and> Choices ?completion \<noteq> []"
    by (simp add: maxRetries_def)
  from t [THEN conjunct1, rule_format, OF h1] t [THEN conjunct2, rule_format, OF h2]
  show ?thesis by (simp only: ChatCompletion.simps) blast
qed

lemma resolve_bound:
  "(j, d') \<in> set (resolve (length tcs) ds) \<Longrightarrow> j < length (fst (toolCallDeltas ds tcs))"
proof (induction ds arbitrary: tcs)
  case Nil
  then show ?case by simp
next
  case (Cons d ds)
  let ?t = "fst (toolCallDelta d tcs)"
  from Cons.prems consider
    (head) "0 \<le> Index d" "Index d < int (length ?t)" "j = nat (Index d)"
    | (tail) "(j, d') \<in> set (resolve (length ?t) ds)"
    unfolding resolve_Cons by (auto split: if_splits)
  then show ?case
  proof cases
    case head
    then have "j < length ?t" by simp
    also have "\<dots> \<le> length (fst (toolCallDeltas ds ?t))" by (rule toolCallDeltas_length_mono)
    finally show ?thesis by (simp only: toolCallDeltas_Cons_fst)
  next
    case tail
    then show ?thesis by (simp only: toolCallDeltas_Cons_fst Cons.IH)
  qed
qed

lemma event_calls_none: "(\<And>e. e \<in> set evs \<Longrightarrow> Type e \<noteq> t) \<Longrightarrow> event_calls t evs = []"
  by (induction evs) auto

text \<open>
  Claim C1, as the code has it. When the backend stream is opened and ends cleanly, let
  the tool-call deltas of the chunks be resolved to call indices in arrival order. Every
  index a delta resolves to is an index of the final tool-call list. The ToolUseStop
  events carry the entries of that list, and Complete carries the list. For every entry,
  the input is the concatenation of the argument fragments of the deltas resolved to its
  index, in arrival order, and the name is the last name fragment of these deltas (the
  empty string when there is none): a name fragment is assigned, not appended. The
  ToolUseDelta events carry, in order, exactly the argument fragments of the resolved
  deltas, one fragment each.
\<close>

theorem stream_tool_call_assembly:
  assumes "retried pd (client (streamParams um ma opts messages tools)) 0 n"
    and "client (streamParams um ma opts messages tools) n = Inr (map RecvChunk chunks @ eof)"
    and "int n < maxRetries"
    and "clean_end eof"
  shows "\<exists>evs tcs r.
           stream pd um ma opts client fr messages tools = Returns evs
           \<and> event_calls EventToolUseStop evs = tcs
           \<and> last evs = (event EventComplete)\<lparr>Response := Some r\<rparr> \<and> ToolCalls r = tcs
           \<and> (\<forall>(j, d) \<in> set (resolve 0 (tool_call_deltas chunks)). j < length tcs)
           \<and> (\<forall>k < length tcs.
                 Input (tcs ! k)
                   = concat (argument_fragments k (resolve 0 (tool_call_deltas chunks)))
                 \<and> Name (tcs ! k)
                   = (if name_fragments k (resolve 0 (tool_call_deltas chunks)) = [] then []
                      else last (name_fragments k (resolve 0 (tool_call_deltas chunks)))))
           \<and> map Input (event_calls EventToolUseDelta evs)
               = List.map_filter (\<lambda>(j, d). delta_Function_Arguments d)
                   (resolve 0 (tool_call_deltas chunks))"
proof -
  let ?ds = "tool_call_deltas chunks"
  let ?st = "fst (consume chunks (initialLocals fr))"
  let ?mid = "snd (consume chunks (initialLocals fr))"
  let ?tcs = "fst (toolCallDeltas ?ds [])"
  let ?r = "\<lparr>Content = content_var ?st, ToolCalls = ?tcs, Usage = usage_var ?st,
             resp_FinishReason = finishReason_var ?st\<rparr>"
  let ?evs = "event EventContentStart # ?mid @ endOfStream ?st"
  have tcs: "toolCalls_var ?st = ?tcs" by (simp add: consume_toolCalls)
  have s: "stream pd um ma opts client fr messages tools = Returns ?evs"
    by (rule stream_clean [where client = client and um = um and ma = ma and opts = opts
          and messages = messages and tools = tools, OF assms])
  have no_stop: "event_calls EventToolUseStop ?mid = []"
    by (rule event_calls_none) (use consume_types in fastforce)
  have stops: "event_calls EventToolUseStop ?evs = ?tcs"
    by (simp add: endOfStream_eq no_stop event_calls_map_toolEvent tcs)
  have lst: "last ?evs = (event EventComplete)\<lparr>Response := Some ?r\<rparr>"
    by (simp add: endOfStream_eq tcs)
  have bound: "\<forall>(j, d) \<in> set (resolve 0 ?ds). j < length ?tcs"
    using resolve_bound [of _ _ "[]" ?ds] by auto
  have fields: "\<forall>k < length ?tcs.
                 Input (?tcs ! k) = concat (argument_fragments k (resolve 0 ?ds))
                 \<and> Name (?tcs ! k)
                   = (if name_fragments k (resolve 0 ?ds) = [] then []
                      else last (name_fragments k (resolve 0 ?ds)))"
    using toolCallDeltas_Input [of _ ?ds "[]"] toolCallDeltas_Name [of _ ?ds "[]"] by simp
  have deltas: "map Input (event_calls EventToolUseDelta ?evs)
               = List.map_filter (\<lambda>(j, d). delta_Function_Arguments d) (resolve 0 ?ds)"
    using toolCallDeltas_fragments [of ?ds "[]"]
    by (simp add: endOfStream_eq consume_calls event_calls_map_toolEvent)
  show ?thesis
    using s stops lst bound fields deltas
    by (intro exI [of _ ?evs] exI [of _ ?tcs] exI [of _ ?r]) simp
qed

theorem stream_tool_call_assembly_witness:
  "\<exists>evs tcs r.
     stream (\<lambda>s. None) (\<lambda>s. None :: unit option) (\<lambda>j. None) zeroClientOptions
       (\<lambda>p n. Inr
          [RecvChunk [\<lparr>Delta_Content = None,
                       Delta_ToolCalls = [\<lparr>Index = 0, delta_ID = Some ''c1'',
                                           delta_Function_Name = Some ''look'',
                                           delta_Function_Arguments = None\<rparr>],
                       chunk_FinishReason = []\<rparr>],
           RecvChunk [\<lparr>Delta_Content = None,
                       Delta_ToolCalls = [\<lparr>Index = 0, delta_ID = None,
                                           delta_Function_Name = Some ''up'',
                                           delta_Function_Arguments = Some ''[1,''\<rparr>,
                                          \<lparr>Index = 0, delta_ID = None,
                                           delta_Function_Name = None,
                                           delta_Function_Arguments = Some ''2]''\<rparr>],
                       chunk_FinishReason = ''tool_calls''\<rparr>]])
       FinishReasonUnknown [] ([] :: unit BaseTool list) = Returns evs
     \<and> last evs = (event EventComplete)\<lparr>Response := Some r\<rparr> \<and> ToolCalls r = tcs
     \<and> 0 < length tcs \<and> Input (tcs ! 0) = ''[1,2]'' \<and> Name (tcs ! 0) = ''up''
     \<and> map Input (event_calls EventToolUseDelta evs) = [''[1,'', ''2]'']"
proof -
  define d1 where "d1 = \<lparr>Index = 0, delta_ID = Some ''c1'', delta_Function_Name = Some ''look'',
              delta_Function_Arguments = None\<rparr>"
  define d2 where "d2 = \<lparr>Index = 0, delta_ID = None, delta_Function_Name = Some ''up'',
              delta_Function_Arguments = Some ''[1,''\<rparr>"
  define d3 where "d3 = \<lparr>Index = 0, delta_ID = None, delta_Function_Name = None,
              delta_Function_Arguments = Some ''2]''\<rparr>"
  define c1 where "c1 = \<lparr>Delta_Content = None, Delta_ToolCalls = [d1], chunk_FinishReason = []\<rparr>"
  define c2 where "c2 = \<lparr>Delta_Content = None, Delta_ToolCalls = [d2, d3],
              chunk_FinishReason = ''tool_calls''\<rparr>"
  define client where "client = (\<lambda>(p :: unit ChatCompletionNewParams) (n :: nat).
                   (Inr [RecvChunk [c1], RecvChunk [c2]] :: error + ChatCompletionStream))"
  have h1: "retried (\<lambda>s. None)
              (client (streamParams (\<lambda>s. None :: unit option) (\<lambda>j. None) zeroClientOptions [] [])) 0 0"
    by simp
  have h2: "client (streamParams (\<lambda>s. None :: unit option) (\<lambda>j. None) zeroClientOptions [] []) 0
              = Inr (map RecvChunk [[c1], [c2]] @ [])"
    by (simp add: client_def)
  have h3: "int 0 < maxRetries" by (simp add: maxRetries_def)
  have h4: "clean_end []" by simp
  have ds: "tool_call_deltas [[c1], [c2]] = [d1, d2, d3]"
    by (simp add: tool_call_deltas_def c1_def c2_def)
  have rs: "resolve 0 [d1, d2, d3] = [(0, d1), (0, d2), (0, d3)]"
    by (simp add: Let_def d1_def d2_def d3_def)
  have af: "concat (argument_fragments 0 [(0, d1), (0, d2), (0, d3)]) = ''[1,2]''"
    by (simp add: argument_fragments_def List.map_filter_def d1_def d2_def d3_def)
  have nf: "name_fragments 0 [(0, d1), (0, d2), (0, d3)] = [''look'', ''up'']"
    by (simp add: name_fragments_def List.map_filter_def d1_def d2_def d3_def)
  have mf: "List.map_filter (\<lambda>(j, d). delta_Function_Arguments d) [(0, d1), (0, d2), (0, d3)]
              = [''[1,'', ''2]'']"
    by (simp add: List.map_filter_def d1_def d2_def d3_def)
  note t = stream_tool_call_assembly [where pd = "\<lambda>s. None" and um = "\<lambda>s. None :: unit option"
      and ma = "\<lambda>j. None" and opts = zeroClientOptions and fr = FinishReasonUnknown
      and messages = "[]" and tools = "[] :: unit BaseTool list" and client = client,
      OF h1 h2 h3 h4, unfolded ds rs mf]
  from t obtain evs tcs r where
    e: "stream (\<lambda>s. None) (\<lambda>s. None :: unit option) (\<lambda>j. None) zeroClientOptions client
          FinishReasonUnknown [] ([] :: unit BaseTool list) = Returns evs"
    and l: "last evs = (event EventComplete)\<lparr>Response := Some r\<rparr>" "ToolCalls r = tcs"
    and b: "\<forall>(j, d) \<in> set [(0, d1), (0, d2), (0, d3)]. j < length tcs"
    and f: "\<forall>k < length tcs.
              Input (tcs ! k) = concat (argument_fragments k [(0, d1), (0, d2), (0, d3)])
              \<and> Name (tcs ! k)
                  = (if name_fragments k [(0, d1), (0, d2), (0, d3)] = [] then []
                     else last (name_fragments k [(0, d1), (0, d2), (0, d3)]))"
    and m: "map Input (event_calls EventToolUseDelta evs) = [''[1,'', ''2]'']"
    by (elim exE conjE) (rule that, assumption+)
  from b have pos: "0 < length tcs" by simp
  from f [rule_format, OF pos] have i: "Input (tcs ! 0) = ''[1,2]''" and n: "Name (tcs ! 0) = ''up''"
    unfolding af nf by simp_all
  have "stream (\<lambda>s. None) (\<lambda>s. None :: unit option) (\<lambda>j. None) zeroClientOptions client
          FinishReasonUnknown [] ([] :: unit BaseTool list) = Returns evs
     \<and> last evs = (event EventComplete)\<lparr>Response := Some r\<rparr> \<and> ToolCalls r = tcs
     \<and> 0 < length tcs \<and> Input (tcs ! 0) = ''[1,2]'' \<and> Name (tcs ! 0) = ''up''
     \<and> map Input (event_calls EventToolUseDelta evs) = [''[1,'', ''2]'']"
    using e l pos i n m by (intro conjI)
  then show ?thesis
    unfolding client_def c1_def c2_def d1_def d2_def d3_def
    by (intro exI)
qed

text \<open>
  Two name fragments, \<open>look\<close> and \<open>up\<close>, arrive for call index 0: the assembled call that
  ToolUseStop and Complete carry is named \<open>up\<close>, not \<open>lookup\<close>.
\<close>

theorem stream_name_overwritten_counterexample:
  "stream (\<lambda>s. None) (\<lambda>s. None :: unit option) (\<lambda>j. None) zeroClientOptions
       (\<lambda>p n. Inr
          [RecvChunk [\<lparr>Delta_Content = None,
                       Delta_ToolCalls = [\<lparr>Index = 0, delta_ID = Some ''c1'',
                                           delta_Function_Name = Some ''look'',
                                           delta_Function_Arguments = None\<rparr>],
                       chunk_FinishReason = []\<rparr>],
           RecvChunk [\<lparr>Delta_Content = None,
                       Delta_ToolCalls = [\<lparr>Index = 0, delta_ID = None,
                                           delta_Function_Name = Some ''up'',
                                           delta_Function_Arguments = None\<rparr>],
                       chunk_FinishReason = ''tool_calls''\<rparr>]])
       FinishReasonUnknown [] ([] :: unit BaseTool list)
     = Returns
         [event EventContentStart,
          toolEvent EventToolUseStart \<lparr>ID = ''c1'', Name = [], Input = []\<rparr>,
          toolEvent EventToolUseStop \<lparr>ID = ''c1'', Name = ''up'', Input = []\<rparr>,
          event EventContentStop,
          (event EventComplete)
            \<lparr>Response := Some
               \<lparr>Content = [], ToolCalls = [\<lparr>ID = ''c1'', Name = ''up'', Input = []\<rparr>],
                Usage = zeroTokenUsage, resp_FinishReason = FinishReasonToolCalls\<rparr>\<rparr>]
   \<and> name_fragments 0
         (resolve 0 [\<lparr>Index = 0, delta_ID = Some ''c1'', delta_Function_Name = Some ''look'',
                      delta_Function_Arguments = None\<rparr>,
                     \<lparr>Index = 0, delta_ID = None, delta_Function_Name = Some ''up'',
                      delta_Function_Arguments = None\<rparr>])
       = [''look'', ''up'']
   \<and> concat [''look'', ''up''] \<noteq> ''up''"
proof -
  have "streamAttempts (\<lambda>s. None)
          (\<lambda>n. Inr
            [RecvChunk [\<lparr>Delta_Content = None,
                         Delta_ToolCalls = [\<lparr>Index = 0, delta_ID = Some ''c1'',
                                             delta_Function_Name = Some ''look'',
                                             delta_Function_Arguments = None\<rparr>],
                         chunk_FinishReason = []\<rparr>],
             RecvChunk [\<lparr>Delta_Content = None,
                         Delta_ToolCalls = [\<lparr>Index = 0, delta_ID = None,
                                             delta_Function_Name = Some ''up'',
                                             delta_Function_Arguments = None\<rparr>],
                         chunk_FinishReason = ''tool_calls''\<rparr>]])
          FinishReasonUnknown 0 [] None
     = Returns
         [event EventContentStart,
          toolEvent EventToolUseStart \<lparr>ID = ''c1'', Name = [], Input = []\<rparr>,
          toolEvent EventToolUseStop \<lparr>ID = ''c1'', Name = ''up'', Input = []\<rparr>,
          event EventContentStop,
          (event EventComplete)
            \<lparr>Response := Some
               \<lparr>Content = [], ToolCalls = [\<lparr>ID = ''c1'', Name = ''up'', Input = []\<rparr>],
                Usage = zeroTokenUsage, resp_FinishReason = FinishReasonToolCalls\<rparr>\<rparr>]"
    by (subst streamAttempts.simps)
       (simp add: maxRetries_def streamBody_def handleChoice_def toolCallDelta_def
          newToolCall_def updateToolCall_def endOfStream_def Let_def)
  moreover have "name_fragments 0
         (resolve 0 [\<lparr>Index = 0, delta_ID = Some ''c1'', delta_Function_Name = Some ''look'',
                      delta_Function_Arguments = None\<rparr>,
                     \<lparr>Index = 0, delta_ID = None, delta_Function_Name = Some ''up'',
                      delta_Function_Arguments = None\<rparr>])
       = [''look'', ''up'']"
    by (simp add: Let_def name_fragments_def List.map_filter_def)
  ultimately show ?thesis by (simp add: stream_unfold)
qed

section \<open>Properties of the conversions\<close>

lemma toolCallsLoop_map:
  assumes "i + length calls \<le> length out"
    and "\<And>j. i \<le> j \<Longrightarrow> j < length out \<Longrightarrow> out ! j = zeroToolCallParam"
  shows "toolCallsLoop um ma calls i out
           = take i out @ map (toolCallParamOrZero um ma) calls @ drop (i + length calls) out"
  using assms
proof (induction calls arbitrary: i out)
  case Nil
  then show ?case by simp
next
  case (Cons call calls)
  have i: "i < length out" using Cons.prems(1) by simp
  show ?case
  proof (cases "toolCallParamOrZero um ma call = zeroToolCallParam
                \<and> toolCallsLoop um ma (call # calls) i out = toolCallsLoop um ma calls (Suc i) out")
    case True
    have "toolCallsLoop um ma calls (Suc i) out
            = take (Suc i) out @ map (toolCallParamOrZero um ma) calls
              @ drop (Suc i + length calls) out"
      using Cons.prems by (intro Cons.IH) simp_all
    moreover have "take (Suc i) out = take i out @ [zeroToolCallParam]"
      using Cons.prems(2) [of i] i by (simp add: take_Suc_conv_app_nth)
    ultimately show ?thesis using True by simp
  next
    case False
    then obtain args argsJSON where
      ok: "um (Input call) = Some args" "ma args = Some argsJSON"
      by (auto simp: toolCallParamOrZero_def split: option.splits)
    let ?v = "\<lparr>param_ID = ID call, param_Type = ''function'', Function_Name = Name call,
               Function_Arguments = argsJSON\<rparr>"
    let ?out = "out[i := ?v]"
    have v: "toolCallParamOrZero um ma call = ?v"
      by (simp add: toolCallParamOrZero_def ok)
    have "toolCallsLoop um ma calls (Suc i) ?out
            = take (Suc i) ?out @ map (toolCallParamOrZero um ma) calls
              @ drop (Suc i + length calls) ?out"
      using Cons.prems by (intro Cons.IH) simp_all
    moreover have "take (Suc i) ?out = take i out @ [?v]"
      using i by (simp add: take_Suc_conv_app_nth)
    moreover have "drop (Suc i + length calls) ?out = drop (Suc i + length calls) out"
      by simp
    ultimately show ?thesis by (simp add: ok v)
  qed
qed

lemma toolsLoop_map:
  assumes "i + length tools \<le> length out"
    and "\<And>j. i \<le> j \<Longrightarrow> j < length out \<Longrightarrow> out ! j = zeroToolParam"
  shows "toolsLoop tools i out = take i out @ map toolParamOrZero tools @ drop (i + length tools) out"
  using assms
proof (induction tools arbitrary: i out)
  case Nil
  then show ?case by simp
next
  case (Cons tool tools)
  have i: "i < length out" using Cons.prems(1) by simp
  show ?case
  proof (cases "tool_JSONSchema tool")
    case (Inl err)
    have "toolsLoop tools (Suc i) out
            = take (Suc i) out @ map toolParamOrZero tools @ drop (Suc i + length tools) out"
      using Cons.prems by (intro Cons.IH) simp_all
    moreover have "take (Suc i) out = take i out @ [zeroToolParam]"
      using Cons.prems(2) [of i] i by (simp add: take_Suc_conv_app_nth)
    ultimately show ?thesis using Inl by (simp add: toolParamOrZero_def)
  next
    case (Inr schema)
    let ?v = "\<lparr>tool_Type = ''function'', def_Name = tool_Name tool,
               def_Description = tool_Description tool, def_Parameters = Some schema\<rparr>"
    let ?out = "out[i := ?v]"
    have "toolsLoop tools (Suc i) ?out
            = take (Suc i) ?out @ map toolParamOrZero tools @ drop (Suc i + length tools) ?out"
      using Cons.prems by (intro Cons.IH) simp_all
    moreover have "take (Suc i) ?out = take i out @ [?v]"
      using i by (simp add: take_Suc_conv_app_nth)
    moreover have "drop (Suc i + length tools) ?out = drop (Suc i + length tools) out"
      by simp
    ultimately show ?thesis using Inr by (simp add: toolParamOrZero_def)
  qed
qed

text \<open>
  Claim C2, on the code. The backend tool-call list of an assistant message has one entry
  per tool call of the message, and the backend tool list one entry per tool: an item
  whose input does not parse (or marshal), or whose schema extraction fails, stays in
  the output as a zero-valued entry at its position, and every other item is converted.
  The conversion never aborts, but the failing item is not dropped.
\<close>

theorem conversions_keep_failed_items:
  "assistantToolCalls um ma calls = map (toolCallParamOrZero um ma) calls
   \<and> convertTools tools = map toolParamOrZero tools
   \<and> length (assistantToolCalls um ma calls) = length calls
   \<and> length (convertTools tools) = length tools
   \<and> convertMessage um ma \<lparr>Role = Assistant, Parts = parts\<rparr>
       = [OfAssistant (if msg_Content parts \<noteq> [] then Some (msg_Content parts) else None)
            (map (toolCallParamOrZero um ma) (msg_ToolCalls parts))]"
proof -
  have a: "assistantToolCalls um ma calls = map (toolCallParamOrZero um ma) calls" for calls
    using toolCallsLoop_map [of 0 calls "replicate (length calls) zeroToolCallParam" um ma]
    by (simp add: assistantToolCalls_def)
  have b: "convertTools tools = map toolParamOrZero tools"
    using toolsLoop_map [of 0 tools "replicate (length tools) zeroToolParam"]
    by (simp add: convertTools_def)
  show ?thesis by (simp add: a b convertMessage_def)
qed

theorem conversions_keep_failed_items_witness:
  "assistantToolCalls (\<lambda>s. if s = ''{}'' then Some () else None) (\<lambda>j. Some ''{}'')
       [\<lparr>ID = ''a'', Name = ''f'', Input = ''{''\<rparr>, \<lparr>ID = ''b'', Name = ''g'', Input = ''{}''\<rparr>]
     = [zeroToolCallParam,
        \<lparr>param_ID = ''b'', param_Type = ''function'', Function_Name = ''g'',
         Function_Arguments = ''{}''\<rparr>]
   \<and> convertTools
       [\<lparr>tool_Name = ''t'', tool_Description = ''d'',
         tool_JSONSchema = Inl (ErrorString ''no schema'')\<rparr>,
        \<lparr>tool_Name = ''u'', tool_Description = ''e'', tool_JSONSchema = Inr ()\<rparr>]
     = [zeroToolParam,
        \<lparr>tool_Type = ''function'', def_Name = ''u'', def_Description = ''e'',
         def_Parameters = Some ()\<rparr>]"
  using conversions_keep_failed_items
    [where um = "\<lambda>s. if s = ''{}'' then Some () else None" and ma = "\<lambda>j. Some ''{}''"
       and calls = "[\<lparr>ID = ''a'', Name = ''f'', Input = ''{''\<rparr>,
                     \<lparr>ID = ''b'', Name = ''g'', Input = ''{}''\<rparr>]"
       and tools = "[\<lparr>tool_Name = ''t'', tool_Description = ''d'',
                       tool_JSONSchema = Inl (ErrorString ''no schema'')\<rparr>,
                     \<lparr>tool_Name = ''u'', tool_Description = ''e'', tool_JSONSchema = Inr ()\<rparr>]"
       and parts = "[]"]
  by (simp add: toolCallParamOrZero_def toolParamOrZero_def)

end
